theory Spec2Isabelle
  imports Main "HOL-Library.Word"
begin

section \<open>Bytes, buffers and JavaScript exceptions\<close>

type_synonym byte = "8 word"
type_synonym buffer = "byte list"

text \<open>
  A thrown JavaScript exception is a value: its class and its message. The error names
  of the specification are messages of the source:
  \<^item> \<open>AccountNotFound\<close> is \<open>Error ''Token account not found''\<close>,
  \<^item> \<open>ZeroBalance\<close> is \<open>Error ''Token account has zero balance''\<close>,
  \<^item> \<open>DestinationUnfunded\<close> is \<open>Error ''Cannot send to address with zero DOMI balances''\<close>.

  The messages of the exceptions that the libraries throw are abridged.
\<close>

datatype error =
    Error string
  | TypeError string
  | RangeError string
  | ReferenceError string

text \<open>\<open>Buffer.alloc(n)\<close>: \<open>n\<close> zero bytes.\<close>

definition Buffer_alloc :: "nat \<Rightarrow> buffer" where
  "Buffer_alloc n = replicate n 0"

text \<open>
  Writing \<open>src\<close> into \<open>b\<close> at \<open>offset\<close>. Both \<open>Blob.encode\<close> and
  \<open>writeUIntLE\<close> throw a RangeError when the write would pass the end of the buffer.
\<close>

definition write_bytes :: "buffer \<Rightarrow> nat \<Rightarrow> buffer \<Rightarrow> error + buffer" where
  "write_bytes b offset src =
     (if offset + length src \<le> length b
      then Inr (take offset b @ src @ drop (offset + length src) b)
      else Inl (RangeError ''encoding overruns Uint8Array''))"

subsection \<open>bigint-buffer\<close>

text \<open>
  \<open>toBufferLE(num, width)\<close> and \<open>toBigIntLE(buf)\<close> of the package bigint-buffer: the
  little-endian bytes of a BigInt, and back. Token amounts are non-negative (\<open>nat\<close>).
  For \<open>num < 256 ^ width\<close> the bytes are the number's; a number that does not fit is
  cut to \<open>width\<close> bytes, the low ones here (the package's two implementations differ on
  which, and nothing below depends on it).
\<close>

fun toBufferLE :: "nat \<Rightarrow> nat \<Rightarrow> buffer" where
  "toBufferLE num 0 = []"
| "toBufferLE num (Suc width) = of_nat (num mod 256) # toBufferLE (num div 256) width"

fun toBigIntLE :: "buffer \<Rightarrow> nat" where
  "toBigIntLE [] = 0"
| "toBigIntLE (x # xs) = unat x + 256 * toBigIntLE xs"

section \<open>Layout codec (\<open>instructions.js\<close>, lines 40 to 90)\<close>

text \<open>
  The values the builders put into a layout: a Number, a Boolean, a BigInt, or a Buffer.
\<close>

datatype jsval =
    Number nat
  | Boolean bool
  | BigInt nat
  | Bytes buffer

text \<open>
  The field layouts the module uses: \<open>BufferLayout.u8\<close>, \<open>BufferLayout.blob(n)\<close> and
  the module's own \<open>bigInt(n)\<close> (a blob whose encode and decode go through
  \<open>toBufferLE\<close> and \<open>toBigIntLE\<close>).
\<close>

datatype layout = u8 | blob nat | bigInt nat

fun span :: "layout \<Rightarrow> nat" where
  "span u8 = 1"
| "span (blob n) = n"
| "span (bigInt n) = n"

text \<open>
  \<open>layout.encode(src, b, offset)\<close>. \<open>u8\<close> writes with \<open>writeUIntLE\<close>, which coerces
  its argument to a number (\<open>true\<close> is 1) and throws a RangeError beyond 255. \<open>blob\<close>
  throws a TypeError unless the source is a byte array of exactly its length. The
  builders give a \<open>bigInt\<close> field a BigInt; a value of another kind is a TypeError
  here (bigint-buffer may take a Number where it runs without its native part).
\<close>

definition blob_encode :: "nat \<Rightarrow> jsval \<Rightarrow> buffer \<Rightarrow> nat \<Rightarrow> error + buffer" where
  "blob_encode n src b offset =
     (case src of
        Bytes bs \<Rightarrow>
          (if length bs = n then write_bytes b offset bs
           else Inl (TypeError ''Blob.encode requires (length n) Uint8Array as src''))
      | _ \<Rightarrow> Inl (TypeError ''Blob.encode requires (length n) Uint8Array as src''))"

fun layout_encode :: "layout \<Rightarrow> jsval \<Rightarrow> buffer \<Rightarrow> nat \<Rightarrow> error + buffer" where
  "layout_encode u8 (Number v) b offset =
     (if v \<le> 255 then write_bytes b offset [of_nat v]
      else Inl (RangeError ''The value of \"value\" is out of range''))"
| "layout_encode u8 (Boolean v) b offset = write_bytes b offset [if v then 1 else 0]"
| "layout_encode (blob n) src b offset = blob_encode n src b offset"
| "layout_encode (bigInt n) (BigInt v) b offset =
     blob_encode n (Bytes (toBufferLE v n)) b offset"
| "layout_encode _ _ b offset = Inl (TypeError ''value does not fit the layout'')"

text \<open>
  \<open>layout.decode(b, offset)\<close>. Reading a \<open>u8\<close> beyond the buffer throws; a blob is a
  slice, which is shorter when the buffer is.
\<close>

fun layout_decode :: "layout \<Rightarrow> buffer \<Rightarrow> nat \<Rightarrow> error + jsval" where
  "layout_decode u8 b offset =
     (if offset < length b then Inr (Number (unat (b ! offset)))
      else Inl (RangeError ''Attempt to access memory outside buffer bounds''))"
| "layout_decode (blob n) b offset = Inr (Bytes (take n (drop offset b)))"
| "layout_decode (bigInt n) b offset = Inr (BigInt (toBigIntLE (take n (drop offset b))))"

text \<open>
  \<open>BufferLayout.struct(fields)\<close>: the fields in order, each with its property name. An
  object is the list of its properties. \<open>Struct.encode\<close> skips a field whose property
  is undefined in the source and moves on by the field's span.
\<close>

type_synonym struct = "(string \<times> layout) list"
type_synonym object = "(string \<times> jsval) list"

fun struct_span :: "struct \<Rightarrow> nat" where
  "struct_span [] = 0"
| "struct_span ((p, l) # fds) = span l + struct_span fds"

fun struct_encode :: "struct \<Rightarrow> object \<Rightarrow> buffer \<Rightarrow> nat \<Rightarrow> error + buffer" where
  "struct_encode [] src b offset = Inr b"
| "struct_encode ((p, l) # fds) src b offset =
     (case map_of src p of
        None \<Rightarrow> struct_encode fds src b (offset + span l)
      | Some fv \<Rightarrow>
          (case layout_encode l fv b offset of
             Inl e \<Rightarrow> Inl e
           | Inr b' \<Rightarrow> struct_encode fds src b' (offset + span l)))"

fun struct_decode :: "struct \<Rightarrow> buffer \<Rightarrow> nat \<Rightarrow> error + object" where
  "struct_decode [] b offset = Inr []"
| "struct_decode ((p, l) # fds) b offset =
     (case layout_decode l b offset of
        Inl e \<Rightarrow> Inl e
      | Inr v \<Rightarrow>
          (case struct_decode fds b (offset + span l) of
             Inl e \<Rightarrow> Inl e
           | Inr dest \<Rightarrow> Inr ((p, v) # dest)))"

text \<open>
  A variant of the union: its tag, its property name and its struct. The union has a
  \<open>u8\<close> prefix discriminator and no default layout, so the span of a variant is the
  span of its struct plus the discriminator's.
\<close>

record variant =
  v_variant :: nat
  v_property :: string
  v_layout :: struct

definition variant_span :: "variant \<Rightarrow> nat" where
  "variant_span v = struct_span (v_layout v) + span u8"

text \<open>The registry of \<open>LAYOUT\<close>, in the order of its keys.\<close>

definition LAYOUT :: "variant list" where
  "LAYOUT =
    [\<lparr>v_variant = 0, v_property = ''initializeMint'',
      v_layout = [(''decimals'', u8), (''mintAuthority'', blob 32),
                  (''freezeAuthorityOption'', u8), (''freezeAuthority'', blob 32)]\<rparr>,
     \<lparr>v_variant = 1, v_property = ''initializeAccount'', v_layout = []\<rparr>,
     \<lparr>v_variant = 7, v_property = ''mintTo'', v_layout = [(''amount'', bigInt 8)]\<rparr>,
     \<lparr>v_variant = 8, v_property = ''burn'', v_layout = [(''amount'', bigInt 8)]\<rparr>,
     \<lparr>v_variant = 9, v_property = ''closeAccount'', v_layout = []\<rparr>,
     \<lparr>v_variant = 12, v_property = ''transferChecked'',
      v_layout = [(''amount'', bigInt 8), (''decimals'', u8)]\<rparr>]"

definition instructionMaxSpan :: nat where
  "instructionMaxSpan = Max (set (map variant_span LAYOUT))"

text \<open>
  An instruction object has one property, the variant's name, holding the fields.
  \<open>Union.getSourceVariant\<close> takes the first variant of the registry whose property the
  source has, and throws when there is none.
\<close>

type_synonym instruction_data = "string \<times> object"

definition getSourceVariant :: "variant list \<Rightarrow> instruction_data \<Rightarrow> error + variant" where
  "getSourceVariant registry src =
     (case find (\<lambda>vlo. v_property vlo = fst src) registry of
        None \<Rightarrow> Inl (Error ''unable to infer src variant'')
      | Some vlo \<Rightarrow> Inr vlo)"

text \<open>
  \<open>VariantLayout.encode\<close>: the discriminator at \<open>offset\<close>, the struct after it; the
  result is the number of bytes used, returned here with the buffer written.
\<close>

definition variant_encode :: "variant \<Rightarrow> instruction_data \<Rightarrow> buffer \<Rightarrow> error + nat \<times> buffer" where
  "variant_encode vlo src b =
     (case layout_encode u8 (Number (v_variant vlo)) b 0 of
        Inl e \<Rightarrow> Inl e
      | Inr b1 \<Rightarrow>
          (case struct_encode (v_layout vlo) (snd src) b1 (span u8) of
             Inl e \<Rightarrow> Inl e
           | Inr b2 \<Rightarrow> Inr (span u8 + struct_span (v_layout vlo), b2)))"

definition LAYOUT_encode :: "instruction_data \<Rightarrow> buffer \<Rightarrow> error + nat \<times> buffer" where
  "LAYOUT_encode src b =
     (case getSourceVariant LAYOUT src of
        Inl e \<Rightarrow> Inl e
      | Inr vlo \<Rightarrow> variant_encode vlo src b)"

text \<open>
  \<open>Union.decode\<close>: the discriminator selects the variant; an unknown tag reaches the
  default layout, which this union does not have, and that is a TypeError.
\<close>

definition LAYOUT_decode :: "buffer \<Rightarrow> error + instruction_data" where
  "LAYOUT_decode b =
     (case layout_decode u8 b 0 of
        Inr (Number discr) \<Rightarrow>
          (case find (\<lambda>vlo. v_variant vlo = discr) LAYOUT of
             None \<Rightarrow> Inl (TypeError ''Cannot read properties of null'')
           | Some clo \<Rightarrow>
               (case struct_decode (v_layout clo) b (span u8) of
                  Inl e \<Rightarrow> Inl e
                | Inr dest \<Rightarrow> Inr (v_property clo, dest)))
      | Inr _ \<Rightarrow> Inl (TypeError ''discriminator is not a number'')
      | Inl e \<Rightarrow> Inl e)"

text \<open>
  \<open>encodeTokenInstructionData\<close>: a buffer of the largest variant span, the encoding
  written into it, and the slice of the bytes used.
\<close>

definition encodeTokenInstructionData :: "instruction_data \<Rightarrow> error + buffer" where
  "encodeTokenInstructionData instruction =
     (let b = Buffer_alloc instructionMaxSpan
      in case LAYOUT_encode instruction b of
           Inl e \<Rightarrow> Inl e
         | Inr (span', b') \<Rightarrow> Inr (take span' b'))"

text \<open>
  A field assignment of a struct: every field of the struct, in its order, with a value
  of the field's type in the field's range.
\<close>

fun fits :: "layout \<Rightarrow> jsval \<Rightarrow> bool" where
  "fits u8 (Number v) = (v \<le> 255)"
| "fits (blob n) (Bytes src) = (length src = n)"
| "fits (bigInt n) (BigInt v) = (v < 256 ^ n)"
| "fits _ _ = False"

fun assignment :: "struct \<Rightarrow> object \<Rightarrow> bool" where
  "assignment [] [] = True"
| "assignment ((p, l) # fds) ((q, v) # src) = (p = q \<and> fits l v \<and> assignment fds src)"
| "assignment _ _ = False"

text \<open>
  What \<open>layout.encode\<close> takes without throwing: as \<open>fits\<close>, and also a Boolean for
  a \<open>u8\<close> and any BigInt for a \<open>bigInt\<close>.
\<close>

fun accepts :: "layout \<Rightarrow> jsval \<Rightarrow> bool" where
  "accepts u8 (Number v) = (v \<le> 255)"
| "accepts u8 (Boolean v) = True"
| "accepts (blob n) (Bytes src) = (length src = n)"
| "accepts (bigInt n) (BigInt v) = True"
| "accepts _ _ = False"

fun accepted :: "struct \<Rightarrow> object \<Rightarrow> bool" where
  "accepted [] [] = True"
| "accepted ((p, l) # fds) ((q, v) # src) = (p = q \<and> accepts l v \<and> accepted fds src)"
| "accepted _ _ = False"

section \<open>Public keys and instructions (\<open>instructions.js\<close>)\<close>

text \<open>
  A \<open>PublicKey\<close> of web3.js is a number of 256 bits, written in base 58;
  \<open>toBuffer\<close> gives its 32 bytes, the most significant first.
\<close>

type_synonym pubkey = "256 word"

definition BASE58_ALPHABET :: string where
  "BASE58_ALPHABET = ''123456789ABCDEFGHJKLMNPQRSTUVWXYZabcdefghijkmnopqrstuvwxyz''"

definition base58_decode :: "string \<Rightarrow> nat" where
  "base58_decode s =
     foldl (\<lambda>a c. 58 * a + length (takeWhile (\<lambda>x. x \<noteq> c) BASE58_ALPHABET)) 0 s"

definition PublicKey :: "string \<Rightarrow> pubkey" where
  "PublicKey s = of_nat (base58_decode s)"

definition toBuffer :: "pubkey \<Rightarrow> buffer" where
  "toBuffer k = rev (toBufferLE (unat k) 32)"

definition PublicKey_default :: pubkey where
  "PublicKey_default = PublicKey ''11111111111111111111111111111111''"

definition SYSVAR_RENT_PUBKEY :: pubkey where
  "SYSVAR_RENT_PUBKEY = PublicKey ''SysvarRent111111111111111111111111111111111''"

definition SystemProgram_programId :: pubkey where
  "SystemProgram_programId = PublicKey ''11111111111111111111111111111111''"

definition TOKEN_PROGRAM_ID :: pubkey where
  "TOKEN_PROGRAM_ID = PublicKey ''TokenAAGbeQq5tGW2r5RoR3oauzN2EkNFiHNPw9q34s''"

definition ASSOCIATED_TOKEN_PROGRAM_ID :: pubkey where
  "ASSOCIATED_TOKEN_PROGRAM_ID = PublicKey ''Dt8fRCpjeV6JDemhPmtcTKijgKdPxXHn9Wo9cXY5agtG''"

definition MEMO_PROGRAM_ID :: pubkey where
  "MEMO_PROGRAM_ID = PublicKey ''Memo1UhkJRfHyvLMcVucJwxXeuD728EqVDDwQDxFMNo''"

definition OWNER_VALIDATION_PROGRAM_ID :: pubkey where
  "OWNER_VALIDATION_PROGRAM_ID = PublicKey ''4MNPdKu9wFMvEeZBMt3Eipfs5ovVWTJb31pEXDJAAxX5''"

text \<open>An entry of an instruction's \<open>keys\<close>, and a \<open>TransactionInstruction\<close>.\<close>

record AccountMeta =
  pubkey :: pubkey
  isSigner :: bool
  isWritable :: bool

record TransactionInstruction =
  ix_keys :: "AccountMeta list"
  ix_programId :: pubkey
  ix_data :: buffer

definition initializeMint ::
  "pubkey \<Rightarrow> nat \<Rightarrow> pubkey \<Rightarrow> pubkey option \<Rightarrow> error + TransactionInstruction" where
  "initializeMint mint decimals mintAuthority freezeAuthority =
     (let keys = [\<lparr>pubkey = mint, isSigner = False, isWritable = True\<rparr>,
                  \<lparr>pubkey = SYSVAR_RENT_PUBKEY, isSigner = False, isWritable = False\<rparr>]
      in case encodeTokenInstructionData
             (''initializeMint'',
              [(''decimals'', Number decimals),
               (''mintAuthority'', Bytes (toBuffer mintAuthority)),
               (''freezeAuthorityOption'', Boolean (freezeAuthority \<noteq> None)),
               (''freezeAuthority'',
                Bytes (toBuffer (case freezeAuthority of
                                   None \<Rightarrow> PublicKey_default | Some k \<Rightarrow> k)))]) of
           Inl e \<Rightarrow> Inl e
         | Inr d \<Rightarrow> Inr \<lparr>ix_keys = keys, ix_programId = TOKEN_PROGRAM_ID, ix_data = d\<rparr>)"

definition initializeAccount :: "pubkey \<Rightarrow> pubkey \<Rightarrow> pubkey \<Rightarrow> error + TransactionInstruction" where
  "initializeAccount account mint owner =
     (let keys = [\<lparr>pubkey = account, isSigner = False, isWritable = True\<rparr>,
                  \<lparr>pubkey = mint, isSigner = False, isWritable = False\<rparr>,
                  \<lparr>pubkey = owner, isSigner = False, isWritable = False\<rparr>,
                  \<lparr>pubkey = SYSVAR_RENT_PUBKEY, isSigner = False, isWritable = False\<rparr>]
      in case encodeTokenInstructionData (''initializeAccount'', []) of
           Inl e \<Rightarrow> Inl e
         | Inr d \<Rightarrow> Inr \<lparr>ix_keys = keys, ix_programId = TOKEN_PROGRAM_ID, ix_data = d\<rparr>)"

definition transferChecked ::
  "pubkey \<Rightarrow> pubkey \<Rightarrow> pubkey \<Rightarrow> nat \<Rightarrow> nat \<Rightarrow> pubkey \<Rightarrow> pubkey
     \<Rightarrow> error + TransactionInstruction" where
  "transferChecked source mint destination amount decimals owner programId =
     (let keys = [\<lparr>pubkey = source, isSigner = False, isWritable = True\<rparr>,
                  \<lparr>pubkey = mint, isSigner = False, isWritable = False\<rparr>,
                  \<lparr>pubkey = destination, isSigner = False, isWritable = True\<rparr>,
                  \<lparr>pubkey = owner, isSigner = True, isWritable = False\<rparr>]
      in case encodeTokenInstructionData
             (''transferChecked'',
              [(''amount'', BigInt amount), (''decimals'', Number decimals)]) of
           Inl e \<Rightarrow> Inl e
         | Inr d \<Rightarrow> Inr \<lparr>ix_keys = keys, ix_programId = programId, ix_data = d\<rparr>)"

definition mintTo :: "pubkey \<Rightarrow> pubkey \<Rightarrow> nat \<Rightarrow> pubkey \<Rightarrow> error + TransactionInstruction" where
  "mintTo mint destination amount mintAuthority =
     (let keys = [\<lparr>pubkey = mint, isSigner = False, isWritable = True\<rparr>,
                  \<lparr>pubkey = destination, isSigner = False, isWritable = True\<rparr>,
                  \<lparr>pubkey = mintAuthority, isSigner = True, isWritable = False\<rparr>]
      in case encodeTokenInstructionData (''mintTo'', [(''amount'', BigInt amount)]) of
           Inl e \<Rightarrow> Inl e
         | Inr d \<Rightarrow> Inr \<lparr>ix_keys = keys, ix_programId = TOKEN_PROGRAM_ID, ix_data = d\<rparr>)"

definition closeAccount :: "pubkey \<Rightarrow> pubkey \<Rightarrow> pubkey \<Rightarrow> error + TransactionInstruction" where
  "closeAccount source destination owner =
     (let keys = [\<lparr>pubkey = source, isSigner = False, isWritable = True\<rparr>,
                  \<lparr>pubkey = destination, isSigner = False, isWritable = True\<rparr>,
                  \<lparr>pubkey = owner, isSigner = True, isWritable = False\<rparr>]
      in case encodeTokenInstructionData (''closeAccount'', []) of
           Inl e \<Rightarrow> Inl e
         | Inr d \<Rightarrow> Inr \<lparr>ix_keys = keys, ix_programId = TOKEN_PROGRAM_ID, ix_data = d\<rparr>)"

text \<open>
  \<open>Buffer.from(memo, 'utf-8')\<close>: a \<open>string\<close> here is the sequence of the memo's UTF-8
  bytes.
\<close>

definition memoInstruction :: "string \<Rightarrow> TransactionInstruction" where
  "memoInstruction memo =
     \<lparr>ix_keys = [], ix_programId = MEMO_PROGRAM_ID,
      ix_data = map (\<lambda>c. of_nat (of_char c)) memo\<rparr>"

text \<open>
  \<open>publicKeyLayout\<close> is a blob of 32 bytes whose \<open>encode\<close> writes the \<open>toBuffer\<close> of
  the key it is given.
\<close>

definition OWNER_VALIDATION_LAYOUT :: struct where
  "OWNER_VALIDATION_LAYOUT = [(''account'', blob 32)]"

definition encodeOwnerValidationInstruction :: "pubkey \<Rightarrow> error + buffer" where
  "encodeOwnerValidationInstruction account =
     (let b = Buffer_alloc (struct_span OWNER_VALIDATION_LAYOUT)
      in case struct_encode OWNER_VALIDATION_LAYOUT [(''account'', Bytes (toBuffer account))] b 0 of
           Inl e \<Rightarrow> Inl e
         | Inr b' \<Rightarrow> Inr (take (struct_span OWNER_VALIDATION_LAYOUT) b'))"

definition assertOwner :: "pubkey \<Rightarrow> pubkey \<Rightarrow> error + TransactionInstruction" where
  "assertOwner account owner =
     (let keys = [\<lparr>pubkey = account, isSigner = False, isWritable = False\<rparr>]
      in case encodeOwnerValidationInstruction owner of
           Inl e \<Rightarrow> Inl e
         | Inr d \<Rightarrow>
             Inr \<lparr>ix_keys = keys, ix_programId = OWNER_VALIDATION_PROGRAM_ID, ix_data = d\<rparr>)"

definition burn :: "pubkey \<Rightarrow> pubkey \<Rightarrow> nat \<Rightarrow> pubkey \<Rightarrow> error + TransactionInstruction" where
  "burn account mint amount owner =
     (let keys = [\<lparr>pubkey = account, isSigner = False, isWritable = True\<rparr>,
                  \<lparr>pubkey = mint, isSigner = False, isWritable = True\<rparr>,
                  \<lparr>pubkey = owner, isSigner = True, isWritable = False\<rparr>]
      in case encodeTokenInstructionData (''burn'', [(''amount'', BigInt amount)]) of
           Inl e \<Rightarrow> Inl e
         | Inr d \<Rightarrow> Inr \<lparr>ix_keys = keys, ix_programId = TOKEN_PROGRAM_ID, ix_data = d\<rparr>)"

section \<open>Transactions and the outside world\<close>

text \<open>
  \<open>SystemProgram.createAccount\<close> of web3.js: the payer and the new account both sign
  and are writable; the payload is the instruction index 0 on four bytes, the lamports
  and the space on eight bytes each, and the owning program.
\<close>

definition SystemProgram_createAccount ::
  "pubkey \<Rightarrow> pubkey \<Rightarrow> nat \<Rightarrow> nat \<Rightarrow> pubkey \<Rightarrow> TransactionInstruction" where
  "SystemProgram_createAccount fromPubkey newAccountPubkey lamports space programId =
     \<lparr>ix_keys = [\<lparr>pubkey = fromPubkey, isSigner = True, isWritable = True\<rparr>,
                 \<lparr>pubkey = newAccountPubkey, isSigner = True, isWritable = True\<rparr>],
      ix_programId = SystemProgram_programId,
      ix_data = toBufferLE 0 4 @ toBufferLE lamports 8 @ toBufferLE space 8 @ toBuffer programId\<rparr>"

text \<open>
  A \<open>Transaction\<close> of web3.js: its instructions, the recent blockhash once it is set,
  and the keys that have to sign, each with whether its signature is there.
\<close>

record Transaction =
  instructions :: "TransactionInstruction list"
  recentBlockhash :: "string option"
  signatures :: "(pubkey \<times> bool) list"

definition new_Transaction :: Transaction where
  "new_Transaction = \<lparr>instructions = [], recentBlockhash = None, signatures = []\<rparr>"

text \<open>
  \<open>Transaction.add(...items)\<close>: an item that is a transaction gives all its
  instructions, an item that is an instruction is appended. (With no item it throws; this
  program always gives one.)
\<close>

datatype item = an_instruction TransactionInstruction | a_transaction Transaction

fun Transaction_add :: "Transaction \<Rightarrow> item list \<Rightarrow> Transaction" where
  "Transaction_add tx [] = tx"
| "Transaction_add tx (an_instruction i # items) =
     Transaction_add (tx\<lparr>instructions := instructions tx @ [i]\<rparr>) items"
| "Transaction_add tx (a_transaction t # items) =
     Transaction_add (tx\<lparr>instructions := instructions tx @ instructions t\<rparr>) items"

text \<open>The first occurrence of each key, in order.\<close>

definition unique :: "pubkey list \<Rightarrow> pubkey list" where
  "unique ks = rev (remdups (rev ks))"

definition setSigners :: "Transaction \<Rightarrow> pubkey list \<Rightarrow> error + Transaction" where
  "setSigners tx ks =
     (if ks = [] then Inl (Error ''No signers'')
      else Inr (tx\<lparr>signatures := map (\<lambda>k. (k, False)) (unique ks)\<rparr>))"

text \<open>
  \<open>Transaction.partialSign(...signers)\<close>: the message is compiled, which needs the
  recent blockhash, and each signer's signature is stored at its key, which has to be
  among the transaction's signers. Of the compilation only this is kept: web3.js also
  orders the signatures by the accounts of the instructions and refuses a signer that no
  instruction lists, which no statement below depends on.
\<close>

definition partialSign :: "Transaction \<Rightarrow> pubkey list \<Rightarrow> error + Transaction" where
  "partialSign tx ks =
     (if ks = [] then Inl (Error ''No signers'')
      else if recentBlockhash tx = None then Inl (Error ''Transaction recentBlockhash required'')
      else if \<not> set ks \<subseteq> fst ` set (signatures tx) then Inl (Error ''unknown signer'')
      else Inr (tx\<lparr>signatures :=
                    map (\<lambda>(k, s). (k, s \<or> k \<in> set ks)) (signatures tx)\<rparr>))"

text \<open>
  A key pair is known here by its public key. A wallet has a public key and signs a
  transaction when asked, or refuses.
\<close>

record Keypair =
  publicKey :: pubkey

record wallet = Keypair +
  signTransaction :: "Transaction \<Rightarrow> error + Transaction"

text \<open>The account a ledger query returns.\<close>

record AccountInfo =
  ai_data :: buffer
  ai_owner :: pubkey
  ai_lamports :: nat

text \<open>
  Every call that leaves the program is an event of a trace: the queries of the
  connection, the submission, the confirmation poll, and the wallet's signature.
\<close>

datatype event =
    GetAccountInfo pubkey
  | GetMinimumBalanceForRentExemption nat
  | GetRecentBlockhash
  | SignTransaction Transaction
  | SendRawTransaction buffer bool
  | ConfirmTransaction string

text \<open>
  The connection answers each call, and its answer may depend on everything that has
  happened before, the trace so far; a call may also fail. \<open>confirmTransaction\<close>
  answers with the \<open>err\<close> of the transaction's status, which is null (\<open>None\<close>) when it
  has succeeded, and throws while the transaction is pending.
\<close>

record connection =
  rpc_getAccountInfo :: "event list \<Rightarrow> pubkey \<Rightarrow> error + AccountInfo option"
  rpc_getMinimumBalanceForRentExemption :: "event list \<Rightarrow> nat \<Rightarrow> error + nat"
  rpc_getRecentBlockhash :: "event list \<Rightarrow> error + string"
  rpc_sendRawTransaction :: "event list \<Rightarrow> buffer \<Rightarrow> error + string"
  rpc_confirmTransaction :: "event list \<Rightarrow> string \<Rightarrow> error + string option"

text \<open>
  The functions of web3.js that hash and serialize: the wire form of a signed
  transaction, and the search for a program address from seeds (which throws when no
  bump gives an address off the curve).
\<close>

record web3 =
  serialize :: "Transaction \<Rightarrow> error + buffer"
  findProgramAddressSync :: "buffer list \<Rightarrow> pubkey \<Rightarrow> error + pubkey \<times> nat"

text \<open>
  An asynchronous function runs from a trace and gives its result, a value or the
  exception thrown, and the trace it has extended.
\<close>

type_synonym 'a io = "event list \<Rightarrow> (error + 'a) \<times> event list"

definition io_return :: "'a \<Rightarrow> 'a io" where
  "io_return x = (\<lambda>t. (Inr x, t))"

definition io_throw :: "error \<Rightarrow> 'a io" where
  "io_throw e = (\<lambda>t. (Inl e, t))"

definition io_bind :: "'a io \<Rightarrow> ('a \<Rightarrow> 'b io) \<Rightarrow> 'b io" where
  "io_bind m f = (\<lambda>t. case m t of (Inl e, t') \<Rightarrow> (Inl e, t') | (Inr x, t') \<Rightarrow> f x t')"

definition lift :: "error + 'a \<Rightarrow> 'a io" where
  "lift r = (\<lambda>t. (r, t))"

definition call :: "event \<Rightarrow> (event list \<Rightarrow> error + 'a) \<Rightarrow> 'a io" where
  "call ev answer = (\<lambda>t. (answer t, t @ [ev]))"

subsection \<open>\<open>signAndSendTransaction\<close> (\<open>instructions.js\<close>, lines 237 to 263)\<close>

definition signAndSendTransaction ::
  "web3 \<Rightarrow> connection \<Rightarrow> Transaction \<Rightarrow> wallet \<Rightarrow> Keypair list \<Rightarrow> bool \<Rightarrow> string io" where
  "signAndSendTransaction lib connection transaction wallet signers skipPreflight =
     io_bind (call GetRecentBlockhash (rpc_getRecentBlockhash connection)) (\<lambda>blockhash.
     io_bind (lift (setSigners (transaction\<lparr>recentBlockhash := Some blockhash\<rparr>)
                      (publicKey wallet # map publicKey signers))) (\<lambda>tx1.
     io_bind (lift (if 0 < length signers then partialSign tx1 (map publicKey signers)
                    else Inr tx1)) (\<lambda>tx2.
     io_bind (call (SignTransaction tx2) (\<lambda>t. signTransaction wallet tx2)) (\<lambda>tx3.
     io_bind (lift (serialize lib tx3)) (\<lambda>rawTransaction.
     call (SendRawTransaction rawTransaction skipPreflight)
          (\<lambda>t. rpc_sendRawTransaction connection t rawTransaction))))))"

section \<open>Minting (\<open>mint.js\<close>)\<close>

text \<open>
  \<open>MINT_LAYOUT.span\<close> and \<open>ACCOUNT_LAYOUT.span\<close> come from \<open>data.js\<close>; they are
  parameters here.
\<close>

definition createAndInitializeMint ::
  "web3 \<Rightarrow> nat \<Rightarrow> nat \<Rightarrow> connection \<Rightarrow> wallet \<Rightarrow> Keypair \<Rightarrow> nat \<Rightarrow> nat \<Rightarrow> Keypair
     \<Rightarrow> string io" where
  "createAndInitializeMint lib MINT_LAYOUT_span ACCOUNT_LAYOUT_span
       connection owner mint amount decimals initialAccount =
     io_bind (call (GetMinimumBalanceForRentExemption MINT_LAYOUT_span)
                (\<lambda>t. rpc_getMinimumBalanceForRentExemption connection t MINT_LAYOUT_span))
       (\<lambda>lamports.
     io_bind (lift (initializeMint (publicKey mint) decimals (publicKey owner) None))
       (\<lambda>initMint.
     let transaction = Transaction_add
           (Transaction_add new_Transaction
              [an_instruction (SystemProgram_createAccount (publicKey owner) (publicKey mint)
                                 lamports MINT_LAYOUT_span TOKEN_PROGRAM_ID)])
           [an_instruction initMint];
         signers = [mint]
     in
     io_bind
       (if 0 < amount then
          io_bind (call (GetMinimumBalanceForRentExemption ACCOUNT_LAYOUT_span)
                     (\<lambda>t. rpc_getMinimumBalanceForRentExemption connection t ACCOUNT_LAYOUT_span))
            (\<lambda>lamports'.
          io_bind (lift (initializeAccount (publicKey initialAccount) (publicKey mint)
                           (publicKey owner)))
            (\<lambda>initAccount.
          io_bind (lift (mintTo (publicKey mint) (publicKey initialAccount) amount
                           (publicKey owner)))
            (\<lambda>mintTo'.
          io_return
            (Transaction_add
               (Transaction_add
                  (Transaction_add transaction
                     [an_instruction
                        (SystemProgram_createAccount (publicKey owner)
                           (publicKey initialAccount) lamports' ACCOUNT_LAYOUT_span
                           TOKEN_PROGRAM_ID)])
                  [an_instruction initAccount])
               [an_instruction mintTo'],
             signers @ [initialAccount]))))
        else io_return (transaction, signers))
       (\<lambda>(transaction, signers).
     signAndSendTransaction lib connection transaction owner signers False)))"

definition mintMoreTokens ::
  "web3 \<Rightarrow> connection \<Rightarrow> wallet \<Rightarrow> pubkey \<Rightarrow> pubkey \<Rightarrow> nat \<Rightarrow> string io" where
  "mintMoreTokens lib connection mintAuthority mint destination amount =
     io_bind (lift (mintTo mint destination amount (publicKey mintAuthority))) (\<lambda>ix.
     signAndSendTransaction lib connection
       (Transaction_add new_Transaction [an_instruction ix]) mintAuthority [] False)"

text \<open>
  The names \<open>mint.js\<close> binds: what it imports (lines 4 to 22) and the functions it
  declares. A name that is neither among them, nor a parameter or a local of the
  function that uses it, nor a global of the language, is not defined, and evaluating it
  throws a ReferenceError.
\<close>

definition mint_js_scope :: "string list" where
  "mint_js_scope =
     [''closeAccount'', ''initializeAccount'', ''initializeMint'', ''memoInstruction'',
      ''mintTo'', ''TOKEN_PROGRAM_ID'', ''TOKEN_METADATA_PROGRAM_ID'',
      ''signAndSendTransaction'', ''transferChecked'',
      ''PublicKey'', ''SystemProgram'', ''SYSVAR_RENT_PUBKEY'', ''Transaction'',
      ''TransactionInstruction'',
      ''ACCOUNT_LAYOUT'', ''MINT_LAYOUT'',
      ''createAndInitializeMint'', ''mintMoreTokens'', ''mintMoreTokensWithNewAccount'']"

definition resolve :: "string list \<Rightarrow> string \<Rightarrow> 'a \<Rightarrow> error + 'a" where
  "resolve scope name v =
     (if name \<in> set scope then Inr v else Inl (ReferenceError (name @ '' is not defined'')))"

text \<open>
  \<open>mintMoreTokensWithNewAccount\<close>. Its first statement is \<open>Keypair.generate()\<close>;
  \<open>generated\<close> is the key pair that call would give where \<open>Keypair\<close> is bound.
\<close>

definition mintMoreTokensWithNewAccount ::
  "web3 \<Rightarrow> nat \<Rightarrow> Keypair \<Rightarrow> connection \<Rightarrow> wallet \<Rightarrow> pubkey \<Rightarrow> pubkey \<Rightarrow> nat \<Rightarrow> string io" where
  "mintMoreTokensWithNewAccount lib ACCOUNT_LAYOUT_span generated
       connection mintAuthority mint destinationOwner amount =
     io_bind (lift (resolve
                (''connection'' # ''mintAuthority'' # ''mint'' # ''destinationOwner''
                   # ''amount'' # ''newTokenAccount'' # ''transaction'' # mint_js_scope)
                ''Keypair'' generated))
       (\<lambda>newTokenAccount.
     io_bind (call (GetMinimumBalanceForRentExemption ACCOUNT_LAYOUT_span)
                (\<lambda>t. rpc_getMinimumBalanceForRentExemption connection t ACCOUNT_LAYOUT_span))
       (\<lambda>lamports.
     io_bind (lift (initializeAccount (publicKey newTokenAccount) mint destinationOwner))
       (\<lambda>initAccount.
     io_bind (lift (mintTo mint (publicKey newTokenAccount) amount (publicKey mintAuthority)))
       (\<lambda>mintTo'.
     signAndSendTransaction lib connection
       (Transaction_add
          (Transaction_add
             (Transaction_add new_Transaction
                [an_instruction
                   (SystemProgram_createAccount (publicKey mintAuthority)
                      (publicKey newTokenAccount) lamports ACCOUNT_LAYOUT_span
                      TOKEN_PROGRAM_ID)])
             [an_instruction initAccount])
          [an_instruction mintTo'])
       mintAuthority [newTokenAccount] False))))"

section \<open>Transfers (\<open>transfer.js\<close>)\<close>

text \<open>
  \<open>findAssociatedTokenAddress(walletAddress, tokenMintAddress, programId = TOKEN_PROGRAM_ID)\<close>:
  an argument left out is \<open>None\<close>.
\<close>

definition findAssociatedTokenAddress ::
  "web3 \<Rightarrow> pubkey \<Rightarrow> pubkey \<Rightarrow> pubkey option \<Rightarrow> error + pubkey" where
  "findAssociatedTokenAddress lib walletAddress tokenMintAddress programId =
     (let programId = (case programId of None \<Rightarrow> TOKEN_PROGRAM_ID | Some p \<Rightarrow> p)
      in case findProgramAddressSync lib
                [toBuffer walletAddress, toBuffer programId, toBuffer tokenMintAddress]
                ASSOCIATED_TOKEN_PROGRAM_ID of
           Inl e \<Rightarrow> Inl e
         | Inr r \<Rightarrow> Inr (fst r))"

definition createAssociatedTokenAccountIx ::
  "web3 \<Rightarrow> pubkey \<Rightarrow> pubkey \<Rightarrow> pubkey \<Rightarrow> pubkey \<Rightarrow> error + TransactionInstruction \<times> pubkey" where
  "createAssociatedTokenAccountIx lib fundingAddress walletAddress dplTokenMintAddress programId =
     (case findAssociatedTokenAddress lib walletAddress dplTokenMintAddress (Some programId) of
        Inl e \<Rightarrow> Inl e
      | Inr associatedTokenAddress \<Rightarrow>
          Inr (\<lparr>ix_keys =
                  [\<lparr>pubkey = fundingAddress, isSigner = True, isWritable = True\<rparr>,
                   \<lparr>pubkey = associatedTokenAddress, isSigner = False, isWritable = True\<rparr>,
                   \<lparr>pubkey = walletAddress, isSigner = False, isWritable = False\<rparr>,
                   \<lparr>pubkey = dplTokenMintAddress, isSigner = False, isWritable = False\<rparr>,
                   \<lparr>pubkey = SystemProgram_programId, isSigner = False, isWritable = False\<rparr>,
                   \<lparr>pubkey = programId, isSigner = False, isWritable = False\<rparr>,
                   \<lparr>pubkey = SYSVAR_RENT_PUBKEY, isSigner = False, isWritable = False\<rparr>],
                ix_programId = ASSOCIATED_TOKEN_PROGRAM_ID,
                ix_data = []\<rparr>,
               associatedTokenAddress))"

text \<open>A memo is given or not, and \<open>if (memo)\<close> holds for a given memo that is not empty.\<close>

definition truthy :: "string option \<Rightarrow> bool" where
  "truthy memo = (case memo of None \<Rightarrow> False | Some s \<Rightarrow> s \<noteq> [])"

definition createTransferBetweenSplTokenAccountsInstruction ::
  "pubkey \<Rightarrow> pubkey \<Rightarrow> nat \<Rightarrow> pubkey \<Rightarrow> pubkey \<Rightarrow> nat \<Rightarrow> string option \<Rightarrow> pubkey
     \<Rightarrow> error + Transaction" where
  "createTransferBetweenSplTokenAccountsInstruction
       ownerPublicKey mint decimals sourcePublicKey destinationPublicKey amount memo programId =
     (case transferChecked sourcePublicKey mint destinationPublicKey amount decimals
             ownerPublicKey programId of
        Inl e \<Rightarrow> Inl e
      | Inr ix \<Rightarrow>
          (let transaction = Transaction_add new_Transaction [an_instruction ix]
           in if truthy memo
              then Inr (Transaction_add transaction [an_instruction (memoInstruction (the memo))])
              else Inr transaction))"

definition transferBetweenSplTokenAccounts ::
  "connection \<Rightarrow> wallet \<Rightarrow> pubkey \<Rightarrow> nat \<Rightarrow> pubkey \<Rightarrow> pubkey \<Rightarrow> nat \<Rightarrow> string option \<Rightarrow> pubkey
     \<Rightarrow> Transaction io" where
  "transferBetweenSplTokenAccounts
       connection owner mint decimals sourcePublicKey destinationPublicKey amount memo programId =
     lift (createTransferBetweenSplTokenAccountsInstruction (publicKey owner) mint decimals
             sourcePublicKey destinationPublicKey amount memo programId)"

definition createAndTransferToAccount ::
  "web3 \<Rightarrow> connection \<Rightarrow> wallet \<Rightarrow> pubkey \<Rightarrow> pubkey \<Rightarrow> nat \<Rightarrow> string option \<Rightarrow> pubkey \<Rightarrow> nat
     \<Rightarrow> pubkey \<Rightarrow> Transaction io" where
  "createAndTransferToAccount lib
       connection owner sourcePublicKey destinationPublicKey amount memo mint decimals programId =
     io_bind (lift (createAssociatedTokenAccountIx lib (publicKey owner) destinationPublicKey
                      mint programId))
       (\<lambda>(createAccountInstruction, newAddress).
     io_bind (lift (createTransferBetweenSplTokenAccountsInstruction (publicKey owner) mint
                      decimals sourcePublicKey newAddress amount memo programId))
       (\<lambda>transfer.
     io_return (Transaction_add new_Transaction
                  [an_instruction createAccountInstruction, a_transaction transfer])))"

text \<open>
  \<open>transferTokens\<close>. \<open>programId\<close> defaults to \<open>TOKEN_PROGRAM_ID\<close>;
  \<open>overrideDestinationCheck\<close> is taken for its truth value.
\<close>

definition transferTokens ::
  "web3 \<Rightarrow> connection \<Rightarrow> wallet \<Rightarrow> pubkey \<Rightarrow> pubkey \<Rightarrow> nat \<Rightarrow> string option \<Rightarrow> pubkey \<Rightarrow> nat
     \<Rightarrow> bool \<Rightarrow> pubkey option \<Rightarrow> Transaction io" where
  "transferTokens lib
       connection owner sourcePublicKey destinationPublicKey amount memo mint decimals
       overrideDestinationCheck programId' =
     (let programId = (case programId' of None \<Rightarrow> TOKEN_PROGRAM_ID | Some p \<Rightarrow> p) in
      io_bind (call (GetAccountInfo destinationPublicKey)
                 (\<lambda>t. rpc_getAccountInfo connection t destinationPublicKey))
        (\<lambda>destinationAccountInfo.
      if destinationAccountInfo \<noteq> None \<and> ai_owner (the destinationAccountInfo) = programId
      then transferBetweenSplTokenAccounts connection owner mint decimals sourcePublicKey
             destinationPublicKey amount memo programId
      else if (destinationAccountInfo = None \<or> ai_lamports (the destinationAccountInfo) = 0)
              \<and> \<not> overrideDestinationCheck
      then io_throw (Error ''Cannot send to address with zero DOMI balances'')
      else
      io_bind (lift (findAssociatedTokenAddress lib destinationPublicKey mint (Some programId)))
        (\<lambda>destinationAssociatedTokenAddress.
      io_bind (call (GetAccountInfo destinationAssociatedTokenAddress)
                 (\<lambda>t. rpc_getAccountInfo connection t destinationAssociatedTokenAddress))
        (\<lambda>destinationAccountInfo.
      if destinationAccountInfo \<noteq> None \<and> ai_owner (the destinationAccountInfo) = programId
      then transferBetweenSplTokenAccounts connection owner mint decimals sourcePublicKey
             destinationAssociatedTokenAddress amount memo programId
      else createAndTransferToAccount lib connection owner sourcePublicKey
             destinationPublicKey amount memo mint decimals programId))))"

section \<open>Burning (\<open>burn.js\<close>)\<close>

text \<open>
  The decoded state of a token account. \<open>parseTokenAccountData\<close> comes from
  \<open>data.js\<close>; it is a parameter of \<open>burnAllTokens\<close>.
\<close>

record TokenAccountState =
  ta_mint :: pubkey
  ta_owner :: pubkey
  ta_amount :: nat

definition burnTokens ::
  "web3 \<Rightarrow> connection \<Rightarrow> wallet \<Rightarrow> pubkey \<Rightarrow> pubkey \<Rightarrow> nat \<Rightarrow> string io" where
  "burnTokens lib connection owner tokenAccount mint amount =
     io_bind (lift (burn tokenAccount mint amount (publicKey owner))) (\<lambda>ix.
     signAndSendTransaction lib connection
       (Transaction_add new_Transaction [an_instruction ix]) owner [] False)"

definition burnTokensAndClose ::
  "web3 \<Rightarrow> connection \<Rightarrow> wallet \<Rightarrow> pubkey \<Rightarrow> pubkey \<Rightarrow> nat \<Rightarrow> bool \<Rightarrow> string io" where
  "burnTokensAndClose lib connection owner tokenAccount mint amount closeIfEmpty =
     io_bind (lift (burn tokenAccount mint amount (publicKey owner))) (\<lambda>ix.
     let transaction = Transaction_add new_Transaction [an_instruction ix] in
     io_bind
       (if closeIfEmpty then
          io_bind (lift (closeAccount tokenAccount (publicKey owner) (publicKey owner)))
            (\<lambda>close. io_return (Transaction_add transaction [an_instruction close]))
        else io_return transaction)
       (\<lambda>transaction.
     signAndSendTransaction lib connection transaction owner [] False))"

definition burnAllTokens ::
  "web3 \<Rightarrow> (buffer \<Rightarrow> error + TokenAccountState) \<Rightarrow> connection \<Rightarrow> wallet \<Rightarrow> pubkey \<Rightarrow> pubkey
     \<Rightarrow> bool \<Rightarrow> string io" where
  "burnAllTokens lib parseTokenAccountData connection owner tokenAccount mint shouldClose =
     io_bind (call (GetAccountInfo tokenAccount)
                (\<lambda>t. rpc_getAccountInfo connection t tokenAccount))
       (\<lambda>accountInfo.
     if accountInfo = None then io_throw (Error ''Token account not found'')
     else
     io_bind (lift (parseTokenAccountData (ai_data (the accountInfo)))) (\<lambda>tokenData.
     let amount = ta_amount tokenData in
     if amount = 0 then io_throw (Error ''Token account has zero balance'')
     else burnTokensAndClose lib connection owner tokenAccount mint amount shouldClose))"

section \<open>The confirmation poll (\<open>production_test.js\<close>, lines 51 to 64)\<close>

text \<open>
  What \<open>confirmTransaction\<close> gives back: the result of the poll that succeeded, or
  nothing (\<open>undefined\<close>) when the loop ends without having run.
\<close>

datatype confirmation = Confirmed | Undefined

text \<open>
  The loop from \<open>i\<close>. Each round polls once. A poll that throws, and a poll that
  reports an \<open>err\<close> (for which the body throws \<open>Transaction failed\<close>), both land in the
  \<open>catch\<close>: the last round rethrows, the others wait two seconds and go on.
\<close>

function confirm_loop :: "connection \<Rightarrow> string \<Rightarrow> nat \<Rightarrow> nat \<Rightarrow> confirmation io" where
  "confirm_loop connection signature maxRetries i =
     (if i < maxRetries then
        (\<lambda>t. case call (ConfirmTransaction signature)
                     (\<lambda>t. rpc_confirmTransaction connection t signature) t of
                (Inr None, t') \<Rightarrow> (Inr Confirmed, t')
              | (Inr (Some err), t') \<Rightarrow>
                  if i = maxRetries - 1 then (Inl (Error (''Transaction failed: '' @ err)), t')
                  else confirm_loop connection signature maxRetries (i + 1) t'
              | (Inl error, t') \<Rightarrow>
                  if i = maxRetries - 1 then (Inl error, t')
                  else confirm_loop connection signature maxRetries (i + 1) t')
      else io_return Undefined)"
  by pat_completeness auto
termination
  by (relation "measure (\<lambda>(connection, signature, maxRetries, i). maxRetries - i)") auto

declare confirm_loop.simps [simp del]

definition confirmTransaction :: "connection \<Rightarrow> string \<Rightarrow> nat \<Rightarrow> confirmation io" where
  "confirmTransaction connection signature maxRetries =
     confirm_loop connection signature maxRetries 0"

section \<open>The test doubles of \<open>full_test.js\<close>\<close>

text \<open>
  \<open>MockConnection\<close>: a table of accounts, and fixed answers to the other calls (the
  signature it gives a submission has a time stamp and a random part in the source; it is
  fixed here).
\<close>

definition MockConnection :: "(pubkey \<times> AccountInfo) list \<Rightarrow> connection" where
  "MockConnection accounts =
     \<lparr>rpc_getAccountInfo = (\<lambda>t k. Inr (map_of accounts k)),
      rpc_getMinimumBalanceForRentExemption = (\<lambda>t size. Inr (size * 10)),
      rpc_getRecentBlockhash = (\<lambda>t. Inr ''4uQeVj5tqViQh7yWWGStvkEG1Zmhx6uasJtWCJziofM''),
      rpc_sendRawTransaction = (\<lambda>t rawTx. Inr ''mock_tx''),
      rpc_confirmTransaction = (\<lambda>t sig. Inr None)\<rparr>"

text \<open>
  \<open>Transaction.sign(...signers)\<close> makes the signers the transaction's signers and
  signs for each; \<open>createMockWallet\<close> signs with its key pair and the additional ones.
\<close>

definition sign :: "Transaction \<Rightarrow> pubkey list \<Rightarrow> error + Transaction" where
  "sign tx ks =
     (if ks = [] then Inl (Error ''No signers'')
      else if recentBlockhash tx = None then Inl (Error ''Transaction recentBlockhash required'')
      else Inr (tx\<lparr>signatures := map (\<lambda>k. (k, True)) (unique ks)\<rparr>))"

definition createMockWallet :: "Keypair \<Rightarrow> Keypair list \<Rightarrow> wallet" where
  "createMockWallet keypair additionalSigners =
     \<lparr>publicKey = publicKey keypair,
      signTransaction = (\<lambda>tx. sign tx (publicKey keypair # map publicKey additionalSigners))\<rparr>"

text \<open>
  A stand-in for web3.js where an example needs one: it derives the address it is given
  and serializes to the payloads of the instructions.
\<close>

definition stub_web3 :: "pubkey \<Rightarrow> web3" where
  "stub_web3 derived =
     \<lparr>serialize = (\<lambda>tx. Inr (concat (map ix_data (instructions tx)))),
      findProgramAddressSync = (\<lambda>seeds programId. Inr (derived, 255))\<rparr>"

text \<open>
  Modelled from the spec: \<open>parseTokenAccountData\<close> of \<open>data.js\<close>, which is not among
  the sources. The state of a token account is laid out as 32 bytes of mint, 32 bytes of
  owner and 8 bytes of amount, little-endian, followed by fields this layer does not
  read. The theorems take the parser as a parameter; this one serves the examples.
\<close>

definition parseTokenAccountData_spec :: "buffer \<Rightarrow> error + TokenAccountState" where
  "parseTokenAccountData_spec data =
     (if length data < 72 then Inl (RangeError ''Attempt to access memory outside buffer bounds'')
      else Inr \<lparr>ta_mint = of_nat (toBigIntLE (rev (take 32 data))),
                ta_owner = of_nat (toBigIntLE (rev (take 32 (drop 32 data)))),
                ta_amount = toBigIntLE (take 8 (drop 64 data))\<rparr>)"

text \<open>
  A connection whose confirmation polls follow a script: the poll made after \<open>i\<close>
  calls gets the \<open>i\<close>-th answer of the script, and once the script is over every
  poll times out, which \<open>confirmTransaction\<close> of web3.js reports by throwing. It is
  the mock connection otherwise.
\<close>

definition scripted_connection :: "(error + string option) list \<Rightarrow> connection" where
  "scripted_connection answers =
     (MockConnection [])
       \<lparr>rpc_confirmTransaction :=
          (\<lambda>t sig. if length t < length answers then answers ! length t
                     else Inl (Error ''Transaction was not confirmed in 30.00 seconds''))\<rparr>"

text \<open>
  What a composer returns without submitting: a transaction with instructions, no recent
  blockhash and no signature, or an exception.
\<close>

definition unsigned :: "error + Transaction \<Rightarrow> bool" where
  "unsigned r = (case r of Inl e \<Rightarrow> True
     | Inr transaction \<Rightarrow> recentBlockhash transaction = None \<and> signatures transaction = []
         \<and> instructions transaction \<noteq> [])"

text \<open>The events that submit a transaction.\<close>

fun is_submission :: "event \<Rightarrow> bool" where
  "is_submission (SendRawTransaction rawTransaction skipPreflight) = True"
| "is_submission _ = False"

section \<open>Round trip of the codec\<close>

lemma length_toBufferLE: "length (toBufferLE n w) = w"
  by (induction w arbitrary: n) simp_all

lemma toBigIntLE_toBufferLE: "toBigIntLE (toBufferLE n w) = n mod 256 ^ w"
proof (induction w arbitrary: n)
  case 0
  then show ?case by simp
next
  case (Suc w)
  have "unat (of_nat (n mod 256) :: byte) = n mod 256"
    by (simp add: unat_of_nat)
  moreover have "n mod (256 * 256 ^ w) = n mod 256 + 256 * (n div 256 mod 256 ^ w)"
    using mod_mult2_eq [of n 256 "256 ^ w"] by (simp only: add.commute)
  ultimately show ?case
    using Suc [of "n div 256"] by simp
qed

lemma write_bytes_Inr:
  assumes "write_bytes b off src = Inr b'"
  shows "length b' = length b" and "take off b' = take off b"
    and "take (length src) (drop off b') = src"
  using assms by (auto simp: write_bytes_def split: if_splits)

lemma write_bytes_ok:
  "off + length src \<le> length b \<Longrightarrow> \<exists>b'. write_bytes b off src = Inr b'"
  by (simp add: write_bytes_def)

lemma layout_encode_frame:
  assumes "layout_encode l v b off = Inr b'"
  shows "length b' = length b \<and> take off b' = take off b"
  using assms
  by (cases "(l, v, b, off)" rule: layout_encode.cases)
     (auto simp: blob_encode_def dest: write_bytes_Inr split: if_splits jsval.splits)

lemma take_shorter:
  assumes "n \<le> m" and "take m xs = take m ys"
  shows "take n xs = take n ys"
proof -
  have "take n (take m xs) = take n (take m ys)" using assms(2) by simp
  with assms(1) show ?thesis by (simp add: min_absorb1)
qed

lemma struct_encode_frame:
  "struct_encode fds src b off = Inr b' \<Longrightarrow> length b' = length b \<and> take off b' = take off b"
proof (induction fds arbitrary: b off)
  case Nil
  then show ?case by simp
next
  case (Cons fd fds)
  obtain p l where fd: "fd = (p, l)" by (cases fd)
  show ?case
  proof (cases "map_of src p")
    case None
    with Cons.prems fd have "struct_encode fds src b (off + span l) = Inr b'" by simp
    from Cons.IH [OF this] have "length b' = length b" "take (off + span l) b' = take (off + span l) b"
      by simp_all
    moreover from this(2) have "take off b' = take off b"
      by (rule take_shorter [rotated]) simp
    ultimately show ?thesis by simp
  next
    case (Some fv)
    with Cons.prems fd obtain b1 where b1: "layout_encode l fv b off = Inr b1"
      and rest: "struct_encode fds src b1 (off + span l) = Inr b'"
      by (auto split: sum.splits)
    from layout_encode_frame [OF b1] have f1: "length b1 = length b" "take off b1 = take off b"
      by simp_all
    from Cons.IH [OF rest] have f2: "length b' = length b1" "take (off + span l) b' = take (off + span l) b1"
      by simp_all
    from f2(2) have "take off b' = take off b1"
      by (rule take_shorter [rotated]) simp
    with f1 f2 show ?thesis by simp
  qed
qed

lemma layout_roundtrip:
  assumes "fits l v" and "off + span l \<le> length b"
  shows "\<exists>b'. layout_encode l v b off = Inr b' \<and> layout_decode l b' off = Inr v"
proof (cases "(l, v)" rule: fits.cases)
  case (1 n)
  with assms have n: "n \<le> 255" and off: "off < length b" by simp_all
  from n have "unat (of_nat n :: byte) = n" by (simp add: unat_of_nat)
  with 1 n off show ?thesis
    by (simp add: write_bytes_def nth_append)
next
  case (2 n src)
  with assms show ?thesis
    by (simp add: blob_encode_def write_bytes_def)
next
  case (3 n x)
  with assms have "x < 256 ^ n" by simp
  then have "toBigIntLE (toBufferLE x n) = x" by (simp add: toBigIntLE_toBufferLE)
  with 3 assms show ?thesis
    by (simp add: blob_encode_def write_bytes_def length_toBufferLE)
qed (use assms in simp_all)

lemma layout_decode_prefix:
  assumes "take (off + span l) b1 = take (off + span l) b2" and "off + span l \<le> length b1"
  shows "layout_decode l b1 off = layout_decode l b2 off"
proof -
  from assms have len: "off + span l \<le> length b2"
    by (metis length_take min.absorb2 min.cobounded1)
  have d: "take (span l) (drop off b1) = take (span l) (drop off b2)"
    using assms(1) by (metis add.commute take_drop)
  show ?thesis
  proof (cases l)
    case u8
    have "b1 ! off = take (off + 1) b1 ! off" by simp
    also have "\<dots> = take (off + 1) b2 ! off" using assms(1) u8 by simp
    also have "\<dots> = b2 ! off" by simp
    finally show ?thesis using u8 assms(2) len by simp
  next
    case (blob n)
    with d show ?thesis by simp
  next
    case (bigInt n)
    with d show ?thesis by simp
  qed
qed

lemma struct_roundtrip:
  assumes "assignment fds obj"
    and "\<And>p v. (p, v) \<in> set obj \<Longrightarrow> map_of src p = Some v"
    and "off + struct_span fds \<le> length b"
  shows "\<exists>b'. struct_encode fds src b off = Inr b' \<and>
           (\<forall>b''. take (off + struct_span fds) b'' = take (off + struct_span fds) b' \<longrightarrow>
                  struct_decode fds b'' off = Inr obj)"
  using assms
proof (induction fds obj arbitrary: b off rule: assignment.induct)
  case 1
  then show ?case by simp
next
  case (2 p l fds q v obj)
  from "2.prems"(1) have pq: "p = q" and fit: "fits l v" and rest: "assignment fds obj"
    by simp_all
  from "2.prems"(2) pq have look: "map_of src p = Some v" by simp
  from "2.prems"(3) have room: "off + span l \<le> length b" by simp
  from layout_roundtrip [OF fit room] obtain b1
    where e1: "layout_encode l v b off = Inr b1" and d1: "layout_decode l b1 off = Inr v"
    by blast
  from layout_encode_frame [OF e1] have len1: "length b1 = length b" by simp
  with "2.prems"(3) have room': "(off + span l) + struct_span fds \<le> length b1" by simp
  have "\<exists>b'. struct_encode fds src b1 (off + span l) = Inr b' \<and>
           (\<forall>b''. take ((off + span l) + struct_span fds) b'' = take ((off + span l) + struct_span fds) b' \<longrightarrow>
                  struct_decode fds b'' (off + span l) = Inr obj)"
    using "2.IH" [OF rest _ room'] "2.prems"(2) by simp
  then obtain b2 where e2: "struct_encode fds src b1 (off + span l) = Inr b2"
    and d2: "\<And>b''. take ((off + span l) + struct_span fds) b'' = take ((off + span l) + struct_span fds) b2 \<Longrightarrow>
                  struct_decode fds b'' (off + span l) = Inr obj"
    by blast
  from struct_encode_frame [OF e2]
  have f2: "length b2 = length b1" "take (off + span l) b2 = take (off + span l) b1" by simp_all
  have "struct_decode ((p, l) # fds) b'' off = Inr ((q, v) # obj)"
    if h: "take (off + struct_span ((p, l) # fds)) b'' = take (off + struct_span ((p, l) # fds)) b2" for b''
  proof -
    from h have h': "take ((off + span l) + struct_span fds) b'' = take ((off + span l) + struct_span fds) b2"
      by (simp add: add.assoc)
    then have "take (off + span l) b'' = take (off + span l) b2"
      by (rule take_shorter [rotated]) simp
    with f2 have "take (off + span l) b1 = take (off + span l) b''" by simp
    from layout_decode_prefix [OF this] room len1 d1
    have "layout_decode l b'' off = Inr v" by simp
    with d2 [OF h'] pq show ?thesis by simp
  qed
  with e1 e2 look show ?case by simp
qed simp_all

lemma instructionMaxSpan_eq: "instructionMaxSpan = 67"
  by (simp add: instructionMaxSpan_def LAYOUT_def variant_span_def)

lemma LAYOUT_find_property:
  "list_all (\<lambda>vlo. find (\<lambda>v. v_property v = v_property vlo) LAYOUT = Some vlo) LAYOUT"
  by (simp add: LAYOUT_def)

lemma LAYOUT_find_variant:
  "list_all (\<lambda>vlo. find (\<lambda>clo. v_variant clo = v_variant vlo) LAYOUT = Some vlo) LAYOUT"
  by (simp add: LAYOUT_def)

lemma LAYOUT_bounds:
  "list_all (\<lambda>vlo. v_variant vlo \<le> 255 \<and> span u8 + struct_span (v_layout vlo) \<le> 67
       \<and> distinct (map fst (v_layout vlo))) LAYOUT"
  by (simp add: LAYOUT_def)

lemma LAYOUT_cases:
  assumes "vlo \<in> set LAYOUT"
  shows "getSourceVariant LAYOUT (v_property vlo, obj) = Inr vlo"
    and "find (\<lambda>clo. v_variant clo = v_variant vlo) LAYOUT = Some vlo"
    and "v_variant vlo \<le> 255"
    and "span u8 + struct_span (v_layout vlo) \<le> instructionMaxSpan"
    and "distinct (map fst (v_layout vlo))"
proof -
  from assms LAYOUT_find_property
  have "find (\<lambda>v. v_property v = v_property vlo) LAYOUT = Some vlo"
    by (simp add: list_all_iff)
  then show "getSourceVariant LAYOUT (v_property vlo, obj) = Inr vlo"
    by (simp add: getSourceVariant_def)
  from assms LAYOUT_find_variant
  show "find (\<lambda>clo. v_variant clo = v_variant vlo) LAYOUT = Some vlo"
    by (simp add: list_all_iff)
  from assms LAYOUT_bounds
  have b: "v_variant vlo \<le> 255 \<and> span u8 + struct_span (v_layout vlo) \<le> 67
       \<and> distinct (map fst (v_layout vlo))"
    unfolding list_all_iff by blast
  from b show "v_variant vlo \<le> 255" by simp
  from b show "span u8 + struct_span (v_layout vlo) \<le> instructionMaxSpan"
    by (simp add: instructionMaxSpan_eq)
  from b show "distinct (map fst (v_layout vlo))" by simp
qed

lemma assignment_names: "assignment fds obj \<Longrightarrow> map fst obj = map fst fds"
  by (induction fds obj rule: assignment.induct) simp_all

text \<open>
  Claim C1. For every variant of the closed set (initializeMint 0, initializeAccount 1,
  mintTo 7, burn 8, closeAccount 9, transferChecked 12) and every assignment of its
  fields (every u64 amount from 0 to 2^64 - 1 included), \<open>encodeTokenInstructionData\<close>
  succeeds, decoding its bytes gives back the variant and the fields, and the result is
  as long as the tag byte plus the span of the variant's struct: nothing of the
  67-byte buffer beyond that is returned. A field assignment gives each \<open>u8\<close> a number
  up to 255, each blob its 32 bytes and each u64 a BigInt below 2^64, as the variant
  table types them (a Boolean written to a \<open>u8\<close> is read back as 0 or 1).
\<close>

theorem encodeTokenInstructionData_round_trip:
  assumes "vlo \<in> set LAYOUT" and "assignment (v_layout vlo) obj"
  shows "\<exists>bytes. encodeTokenInstructionData (v_property vlo, obj) = Inr bytes
           \<and> LAYOUT_decode bytes = Inr (v_property vlo, obj)
           \<and> length bytes = 1 + struct_span (v_layout vlo)"
proof -
  let ?n = "span u8 + struct_span (v_layout vlo)"
  let ?b = "Buffer_alloc instructionMaxSpan"
  note L = LAYOUT_cases [OF assms(1)]
  have lenb: "length ?b = instructionMaxSpan" by (simp add: Buffer_alloc_def)
  from L(3) have tagfit: "fits u8 (Number (v_variant vlo))" by simp
  have "0 + span u8 \<le> length ?b" by (simp add: Buffer_alloc_def instructionMaxSpan_eq)
  from layout_roundtrip [OF tagfit this] obtain b1
    where e1: "layout_encode u8 (Number (v_variant vlo)) ?b 0 = Inr b1"
      and d1: "layout_decode u8 b1 0 = Inr (Number (v_variant vlo))"
    by blast
  from layout_encode_frame [OF e1] lenb have len1: "length b1 = instructionMaxSpan" by simp
  from assignment_names [OF assms(2)] L(5) have "distinct (map fst obj)" by simp
  then have look: "\<And>p v. (p, v) \<in> set obj \<Longrightarrow> map_of obj p = Some v" by simp
  from L(4) len1 have room: "span u8 + struct_span (v_layout vlo) \<le> length b1" by simp
  from struct_roundtrip [OF assms(2) look room] obtain b2
    where e2: "struct_encode (v_layout vlo) obj b1 (span u8) = Inr b2"
      and d2: "\<And>b''. take ?n b'' = take ?n b2 \<Longrightarrow> struct_decode (v_layout vlo) b'' (span u8) = Inr obj"
    by blast
  from struct_encode_frame [OF e2] len1
  have len2: "length b2 = instructionMaxSpan" and pre2: "take (span u8) b2 = take (span u8) b1"
    by simp_all
  have enc: "encodeTokenInstructionData (v_property vlo, obj) = Inr (take ?n b2)"
    using L(1) e1 e2
    by (simp add: encodeTokenInstructionData_def LAYOUT_encode_def variant_encode_def)
  have "take (0 + span u8) b1 = take (0 + span u8) (take ?n b2)"
    using pre2 by (simp add: min_absorb1)
  from layout_decode_prefix [OF this] len1 d1
  have dtag: "layout_decode u8 (take ?n b2) 0 = Inr (Number (v_variant vlo))"
    by (simp add: instructionMaxSpan_eq)
  have dstruct: "struct_decode (v_layout vlo) (take ?n b2) (span u8) = Inr obj"
    by (rule d2) simp
  have dec: "LAYOUT_decode (take ?n b2) = Inr (v_property vlo, obj)"
    using dtag dstruct L(2) by (simp add: LAYOUT_decode_def)
  have "length (take ?n b2) = 1 + struct_span (v_layout vlo)"
    using L(4) len2 by simp
  with enc dec show ?thesis by blast
qed

theorem encodeTokenInstructionData_round_trip_witness:
  "\<lparr>v_variant = 12, v_property = ''transferChecked'',
     v_layout = [(''amount'', bigInt 8), (''decimals'', u8)]\<rparr> \<in> set LAYOUT
   \<and> assignment [(''amount'', bigInt 8), (''decimals'', u8)]
        [(''amount'', BigInt 18446744073709551615), (''decimals'', Number 9)]
   \<and> (\<exists>bytes. encodeTokenInstructionData
          (''transferChecked'',
           [(''amount'', BigInt 18446744073709551615), (''decimals'', Number 9)]) = Inr bytes
        \<and> LAYOUT_decode bytes =
            Inr (''transferChecked'',
                 [(''amount'', BigInt 18446744073709551615), (''decimals'', Number 9)])
        \<and> length bytes = 10)"
  using encodeTokenInstructionData_round_trip
    [of "\<lparr>v_variant = 12, v_property = ''transferChecked'',
          v_layout = [(''amount'', bigInt 8), (''decimals'', u8)]\<rparr>"
        "[(''amount'', BigInt 18446744073709551615), (''decimals'', Number 9)]"]
  by (simp add: LAYOUT_def)

section \<open>Account lists of the builders\<close>

lemma layout_encode_ok:
  assumes "accepts l v" and "off + span l \<le> length b"
  shows "\<exists>b'. layout_encode l v b off = Inr b'"
  using assms
  by (cases "(l, v)" rule: accepts.cases)
     (simp_all add: write_bytes_def blob_encode_def length_toBufferLE)

lemma struct_encode_ok:
  assumes "accepted fds obj"
    and "\<And>p v. (p, v) \<in> set obj \<Longrightarrow> map_of src p = Some v"
    and "off + struct_span fds \<le> length b"
  shows "\<exists>b'. struct_encode fds src b off = Inr b'"
  using assms
proof (induction fds obj arbitrary: b off rule: accepted.induct)
  case 1
  then show ?case by simp
next
  case (2 p l fds q v obj)
  from "2.prems"(1) have pq: "p = q" and acc: "accepts l v" and rest: "accepted fds obj"
    by simp_all
  from "2.prems"(2) pq have look: "map_of src p = Some v" by simp
  from "2.prems"(3) have room: "off + span l \<le> length b" by simp
  from layout_encode_ok [OF acc room] obtain b1
    where e1: "layout_encode l v b off = Inr b1" by blast
  from layout_encode_frame [OF e1] "2.prems"(3)
  have room': "(off + span l) + struct_span fds \<le> length b1" by simp
  have "\<exists>b'. struct_encode fds src b1 (off + span l) = Inr b'"
    using "2.IH" [OF rest _ room'] "2.prems"(2) by simp
  with e1 look show ?case by simp
qed simp_all

lemma accepted_names: "accepted fds obj \<Longrightarrow> map fst obj = map fst fds"
  by (induction fds obj rule: accepted.induct) simp_all

lemma encodeTokenInstructionData_ok:
  assumes "vlo \<in> set LAYOUT" and "accepted (v_layout vlo) obj"
  shows "\<exists>bytes. encodeTokenInstructionData (v_property vlo, obj) = Inr bytes"
proof -
  let ?b = "Buffer_alloc instructionMaxSpan"
  note L = LAYOUT_cases [OF assms(1)]
  from L(3) have tag: "accepts u8 (Number (v_variant vlo))" by simp
  have "0 + span u8 \<le> length ?b" by (simp add: Buffer_alloc_def instructionMaxSpan_eq)
  from layout_encode_ok [OF tag this] obtain b1
    where e1: "layout_encode u8 (Number (v_variant vlo)) ?b 0 = Inr b1" by blast
  from layout_encode_frame [OF e1] have len1: "length b1 = instructionMaxSpan"
    by (simp add: Buffer_alloc_def)
  from accepted_names [OF assms(2)] L(5) have "distinct (map fst obj)" by simp
  then have look: "\<And>p v. (p, v) \<in> set obj \<Longrightarrow> map_of obj p = Some v" by simp
  from L(4) len1 have room: "span u8 + struct_span (v_layout vlo) \<le> length b1" by simp
  from struct_encode_ok [OF assms(2) look room] obtain b2
    where e2: "struct_encode (v_layout vlo) obj b1 (span u8) = Inr b2" by blast
  show ?thesis
    using L(1) e1 e2
    by (simp add: encodeTokenInstructionData_def LAYOUT_encode_def variant_encode_def)
qed

lemma length_toBuffer: "length (toBuffer k) = 32"
  by (simp add: toBuffer_def length_toBufferLE)

lemma encode_initializeMint_ok:
  assumes "decimals \<le> 255"
  shows "\<exists>d. encodeTokenInstructionData
           (''initializeMint'',
            [(''decimals'', Number decimals), (''mintAuthority'', Bytes (toBuffer a)),
             (''freezeAuthorityOption'', Boolean f), (''freezeAuthority'', Bytes (toBuffer k))]) = Inr d"
  using assms encodeTokenInstructionData_ok
    [of "\<lparr>v_variant = 0, v_property = ''initializeMint'',
          v_layout = [(''decimals'', u8), (''mintAuthority'', blob 32),
                      (''freezeAuthorityOption'', u8), (''freezeAuthority'', blob 32)]\<rparr>"]
  by (simp add: LAYOUT_def length_toBuffer)

lemma encode_empty_ok:
  "\<exists>d. encodeTokenInstructionData (''initializeAccount'', []) = Inr d"
  "\<exists>d. encodeTokenInstructionData (''closeAccount'', []) = Inr d"
  using encodeTokenInstructionData_ok
    [of "\<lparr>v_variant = 1, v_property = ''initializeAccount'', v_layout = []\<rparr>" "[]"]
   encodeTokenInstructionData_ok
    [of "\<lparr>v_variant = 9, v_property = ''closeAccount'', v_layout = []\<rparr>" "[]"]
  by (simp_all add: LAYOUT_def)

lemma encode_amount_ok:
  "\<exists>d. encodeTokenInstructionData (''mintTo'', [(''amount'', BigInt amount)]) = Inr d"
  "\<exists>d. encodeTokenInstructionData (''burn'', [(''amount'', BigInt amount)]) = Inr d"
  using encodeTokenInstructionData_ok
    [of "\<lparr>v_variant = 7, v_property = ''mintTo'', v_layout = [(''amount'', bigInt 8)]\<rparr>"
        "[(''amount'', BigInt amount)]"]
   encodeTokenInstructionData_ok
    [of "\<lparr>v_variant = 8, v_property = ''burn'', v_layout = [(''amount'', bigInt 8)]\<rparr>"
        "[(''amount'', BigInt amount)]"]
  by (simp_all add: LAYOUT_def)

lemma encode_transferChecked_ok:
  assumes "decimals \<le> 255"
  shows "\<exists>d. encodeTokenInstructionData
           (''transferChecked'', [(''amount'', BigInt amount), (''decimals'', Number decimals)]) = Inr d"
  using assms encodeTokenInstructionData_ok
    [of "\<lparr>v_variant = 12, v_property = ''transferChecked'',
          v_layout = [(''amount'', bigInt 8), (''decimals'', u8)]\<rparr>"
        "[(''amount'', BigInt amount), (''decimals'', Number decimals)]"]
  by (simp add: LAYOUT_def)

lemma encodeOwnerValidationInstruction_eq:
  "encodeOwnerValidationInstruction account = Inr (toBuffer account)"
  by (simp add: encodeOwnerValidationInstruction_def OWNER_VALIDATION_LAYOUT_def
      Buffer_alloc_def blob_encode_def write_bytes_def length_toBuffer)

text \<open>The bytes of a transferChecked payload, written into the buffer of 67.\<close>

lemma toBufferLE_numeral:
  "toBufferLE n (numeral k) = of_nat (n mod 256) # toBufferLE (n div 256) (pred_numeral k)"
  by (metis numeral_eq_Suc toBufferLE.simps(2))

lemma getSourceVariant_transferChecked:
  "getSourceVariant LAYOUT (''transferChecked'', obj) =
     Inr \<lparr>v_variant = 12, v_property = ''transferChecked'',
          v_layout = [(''amount'', bigInt 8), (''decimals'', u8)]\<rparr>"
  by (simp add: getSourceVariant_def LAYOUT_def)

lemma write_tag_transferChecked: "write_bytes (replicate 67 0) 0 [12::byte] = Inr (12 # replicate 66 0)"
  by (simp add: write_bytes_def)

lemma write_amount: "length x = 8 \<Longrightarrow> write_bytes (12 # replicate 66 (0::byte)) (Suc 0) x = Inr (12 # x @ replicate 58 0)"
  by (simp add: write_bytes_def)

lemma write_decimals: "length x = 8 \<Longrightarrow> write_bytes (12 # x @ replicate 58 (0::byte)) 9 [d] = Inr (12 # x @ d # replicate 57 0)"
  by (simp add: write_bytes_def)

lemma encode_transferChecked:
  assumes "decimals \<le> 255"
  shows "encodeTokenInstructionData
           (''transferChecked'', [(''amount'', BigInt amount), (''decimals'', Number decimals)])
         = Inr (12 # toBufferLE amount 8 @ [of_nat decimals])"
  using assms
  by (simp add: encodeTokenInstructionData_def LAYOUT_encode_def getSourceVariant_transferChecked
      variant_encode_def instructionMaxSpan_eq Buffer_alloc_def write_tag_transferChecked write_amount write_decimals
      blob_encode_def length_toBufferLE)

lemma encode_transferChecked_10_9:
  "encodeTokenInstructionData (''transferChecked'', [(''amount'', BigInt 10), (''decimals'', Number 9)])
     = Inr [12, 10, 0, 0, 0, 0, 0, 0, 0, 9]"
  by (simp add: encode_transferChecked toBufferLE_numeral)

lemma getSourceVariant_initializeMint:
  "getSourceVariant LAYOUT (''initializeMint'', obj) =
     Inr \<lparr>v_variant = 0, v_property = ''initializeMint'',
          v_layout = [(''decimals'', u8), (''mintAuthority'', blob 32),
                      (''freezeAuthorityOption'', u8), (''freezeAuthority'', blob 32)]\<rparr>"
  by (simp add: getSourceVariant_def LAYOUT_def)

lemma write_tag_initializeMint: "write_bytes (replicate 67 0) 0 [0::byte] = Inr (0 # replicate 66 0)"
  by (simp add: write_bytes_def)

lemma encode_initializeMint_range:
  assumes "255 < decimals"
  shows "\<exists>msg. encodeTokenInstructionData
           (''initializeMint'', (''decimals'', Number decimals) # rest) = Inl (RangeError msg)"
  using assms
  by (simp add: encodeTokenInstructionData_def LAYOUT_encode_def getSourceVariant_initializeMint
      variant_encode_def instructionMaxSpan_eq Buffer_alloc_def write_tag_initializeMint)

lemma encode_transferChecked_range:
  assumes "255 < decimals"
  shows "\<exists>msg. encodeTokenInstructionData
           (''transferChecked'', [(''amount'', BigInt amount), (''decimals'', Number decimals)])
         = Inl (RangeError msg)"
  using assms
  by (simp add: encodeTokenInstructionData_def LAYOUT_encode_def getSourceVariant_transferChecked
      variant_encode_def instructionMaxSpan_eq Buffer_alloc_def write_tag_transferChecked write_amount
      blob_encode_def length_toBufferLE)

text \<open>
  Claim C2. Each builder returns an instruction whose account list is, in order and with
  these flags: initializeMint: mint (writable), rent sysvar; initializeAccount: account
  (writable), mint, owner, rent sysvar; mintTo: mint (writable), destination (writable),
  mint authority (signer); burn: account (writable), mint (writable), owner (signer);
  closeAccount: source (writable), destination (writable), owner (signer);
  transferChecked: source (writable), mint, destination (writable), owner (signer); memo:
  no account; assertOwner: the account, neither signer nor writable. The builders are
  functions of their arguments alone: none takes the connection or extends a trace. This
  holds for every input of the data model, whose decimals are a \<open>u8\<close>; for decimals
  beyond 255, which the payload cannot hold, the two builders that encode them throw a
  RangeError and return no instruction.
\<close>

theorem builders_account_lists:
  "(decimals \<le> 255 \<longrightarrow>
      (\<exists>d. initializeMint mint decimals mintAuthority freezeAuthority =
         Inr \<lparr>ix_keys = [\<lparr>pubkey = mint, isSigner = False, isWritable = True\<rparr>,
                          \<lparr>pubkey = SYSVAR_RENT_PUBKEY, isSigner = False, isWritable = False\<rparr>],
               ix_programId = TOKEN_PROGRAM_ID, ix_data = d\<rparr>))
   \<and> (\<exists>d. initializeAccount account mint owner =
         Inr \<lparr>ix_keys = [\<lparr>pubkey = account, isSigner = False, isWritable = True\<rparr>,
                          \<lparr>pubkey = mint, isSigner = False, isWritable = False\<rparr>,
                          \<lparr>pubkey = owner, isSigner = False, isWritable = False\<rparr>,
                          \<lparr>pubkey = SYSVAR_RENT_PUBKEY, isSigner = False, isWritable = False\<rparr>],
               ix_programId = TOKEN_PROGRAM_ID, ix_data = d\<rparr>)
   \<and> (\<exists>d. mintTo mint destination amount mintAuthority =
         Inr \<lparr>ix_keys = [\<lparr>pubkey = mint, isSigner = False, isWritable = True\<rparr>,
                          \<lparr>pubkey = destination, isSigner = False, isWritable = True\<rparr>,
                          \<lparr>pubkey = mintAuthority, isSigner = True, isWritable = False\<rparr>],
               ix_programId = TOKEN_PROGRAM_ID, ix_data = d\<rparr>)
   \<and> (\<exists>d. burn account mint amount owner =
         Inr \<lparr>ix_keys = [\<lparr>pubkey = account, isSigner = False, isWritable = True\<rparr>,
                          \<lparr>pubkey = mint, isSigner = False, isWritable = True\<rparr>,
                          \<lparr>pubkey = owner, isSigner = True, isWritable = False\<rparr>],
               ix_programId = TOKEN_PROGRAM_ID, ix_data = d\<rparr>)
   \<and> (\<exists>d. closeAccount source destination owner =
         Inr \<lparr>ix_keys = [\<lparr>pubkey = source, isSigner = False, isWritable = True\<rparr>,
                          \<lparr>pubkey = destination, isSigner = False, isWritable = True\<rparr>,
                          \<lparr>pubkey = owner, isSigner = True, isWritable = False\<rparr>],
               ix_programId = TOKEN_PROGRAM_ID, ix_data = d\<rparr>)
   \<and> (decimals \<le> 255 \<longrightarrow>
      (\<exists>d. transferChecked source mint destination amount decimals owner programId =
         Inr \<lparr>ix_keys = [\<lparr>pubkey = source, isSigner = False, isWritable = True\<rparr>,
                          \<lparr>pubkey = mint, isSigner = False, isWritable = False\<rparr>,
                          \<lparr>pubkey = destination, isSigner = False, isWritable = True\<rparr>,
                          \<lparr>pubkey = owner, isSigner = True, isWritable = False\<rparr>],
               ix_programId = programId, ix_data = d\<rparr>))
   \<and> ix_keys (memoInstruction memo) = []
   \<and> assertOwner account owner =
         Inr \<lparr>ix_keys = [\<lparr>pubkey = account, isSigner = False, isWritable = False\<rparr>],
               ix_programId = OWNER_VALIDATION_PROGRAM_ID, ix_data = toBuffer owner\<rparr>
   \<and> (255 < decimals \<longrightarrow>
        (\<exists>msg. initializeMint mint decimals mintAuthority freezeAuthority
                 = Inl (RangeError msg)))
   \<and> (255 < decimals \<longrightarrow>
        (\<exists>msg. transferChecked source mint destination amount decimals owner programId
                 = Inl (RangeError msg)))"
proof (intro conjI impI)
  assume d: "decimals \<le> 255"
  from encode_initializeMint_ok [OF d] obtain d'
    where "encodeTokenInstructionData
           (''initializeMint'',
            [(''decimals'', Number decimals), (''mintAuthority'', Bytes (toBuffer mintAuthority)),
             (''freezeAuthorityOption'', Boolean (freezeAuthority \<noteq> None)),
             (''freezeAuthority'',
              Bytes (toBuffer (case freezeAuthority of
                                 None \<Rightarrow> PublicKey_default | Some k \<Rightarrow> k)))]) = Inr d'"
    by blast
  then show "\<exists>d. initializeMint mint decimals mintAuthority freezeAuthority =
         Inr \<lparr>ix_keys = [\<lparr>pubkey = mint, isSigner = False, isWritable = True\<rparr>,
                          \<lparr>pubkey = SYSVAR_RENT_PUBKEY, isSigner = False, isWritable = False\<rparr>],
               ix_programId = TOKEN_PROGRAM_ID, ix_data = d\<rparr>"
    by (simp add: initializeMint_def)
next
  from encode_empty_ok(1) obtain d where "encodeTokenInstructionData (''initializeAccount'', []) = Inr d"
    by blast
  then show "\<exists>d. initializeAccount account mint owner =
         Inr \<lparr>ix_keys = [\<lparr>pubkey = account, isSigner = False, isWritable = True\<rparr>,
                          \<lparr>pubkey = mint, isSigner = False, isWritable = False\<rparr>,
                          \<lparr>pubkey = owner, isSigner = False, isWritable = False\<rparr>,
                          \<lparr>pubkey = SYSVAR_RENT_PUBKEY, isSigner = False, isWritable = False\<rparr>],
               ix_programId = TOKEN_PROGRAM_ID, ix_data = d\<rparr>"
    by (simp add: initializeAccount_def)
next
  from encode_amount_ok(1) obtain d
    where "encodeTokenInstructionData (''mintTo'', [(''amount'', BigInt amount)]) = Inr d"
    by blast
  then show "\<exists>d. mintTo mint destination amount mintAuthority =
         Inr \<lparr>ix_keys = [\<lparr>pubkey = mint, isSigner = False, isWritable = True\<rparr>,
                          \<lparr>pubkey = destination, isSigner = False, isWritable = True\<rparr>,
                          \<lparr>pubkey = mintAuthority, isSigner = True, isWritable = False\<rparr>],
               ix_programId = TOKEN_PROGRAM_ID, ix_data = d\<rparr>"
    by (simp add: mintTo_def)
next
  from encode_amount_ok(2) obtain d
    where "encodeTokenInstructionData (''burn'', [(''amount'', BigInt amount)]) = Inr d"
    by blast
  then show "\<exists>d. burn account mint amount owner =
         Inr \<lparr>ix_keys = [\<lparr>pubkey = account, isSigner = False, isWritable = True\<rparr>,
                          \<lparr>pubkey = mint, isSigner = False, isWritable = True\<rparr>,
                          \<lparr>pubkey = owner, isSigner = True, isWritable = False\<rparr>],
               ix_programId = TOKEN_PROGRAM_ID, ix_data = d\<rparr>"
    by (simp add: burn_def)
next
  from encode_empty_ok(2) obtain d where "encodeTokenInstructionData (''closeAccount'', []) = Inr d"
    by blast
  then show "\<exists>d. closeAccount source destination owner =
         Inr \<lparr>ix_keys = [\<lparr>pubkey = source, isSigner = False, isWritable = True\<rparr>,
                          \<lparr>pubkey = destination, isSigner = False, isWritable = True\<rparr>,
                          \<lparr>pubkey = owner, isSigner = True, isWritable = False\<rparr>],
               ix_programId = TOKEN_PROGRAM_ID, ix_data = d\<rparr>"
    by (simp add: closeAccount_def)
next
  assume d: "decimals \<le> 255"
  from encode_transferChecked_ok [OF d] obtain d'
    where "encodeTokenInstructionData
           (''transferChecked'', [(''amount'', BigInt amount), (''decimals'', Number decimals)]) = Inr d'"
    by blast
  then show "\<exists>d. transferChecked source mint destination amount decimals owner programId =
         Inr \<lparr>ix_keys = [\<lparr>pubkey = source, isSigner = False, isWritable = True\<rparr>,
                          \<lparr>pubkey = mint, isSigner = False, isWritable = False\<rparr>,
                          \<lparr>pubkey = destination, isSigner = False, isWritable = True\<rparr>,
                          \<lparr>pubkey = owner, isSigner = True, isWritable = False\<rparr>],
               ix_programId = programId, ix_data = d\<rparr>"
    by (simp add: transferChecked_def)
next
  show "ix_keys (memoInstruction memo) = []" by (simp add: memoInstruction_def)
next
  show "assertOwner account owner =
         Inr \<lparr>ix_keys = [\<lparr>pubkey = account, isSigner = False, isWritable = False\<rparr>],
               ix_programId = OWNER_VALIDATION_PROGRAM_ID, ix_data = toBuffer owner\<rparr>"
    by (simp add: assertOwner_def encodeOwnerValidationInstruction_eq)
next
  assume d: "255 < decimals"
  from encode_initializeMint_range [OF d] obtain msg
    where "encodeTokenInstructionData
           (''initializeMint'',
            [(''decimals'', Number decimals), (''mintAuthority'', Bytes (toBuffer mintAuthority)),
             (''freezeAuthorityOption'', Boolean (freezeAuthority \<noteq> None)),
             (''freezeAuthority'',
              Bytes (toBuffer (case freezeAuthority of
                                 None \<Rightarrow> PublicKey_default | Some k \<Rightarrow> k)))])
           = Inl (RangeError msg)"
    by blast
  then show "\<exists>msg. initializeMint mint decimals mintAuthority freezeAuthority
                 = Inl (RangeError msg)"
    by (simp add: initializeMint_def)
next
  assume d: "255 < decimals"
  from encode_transferChecked_range [OF d] obtain msg
    where "encodeTokenInstructionData
           (''transferChecked'', [(''amount'', BigInt amount), (''decimals'', Number decimals)])
           = Inl (RangeError msg)"
    by blast
  then show "\<exists>msg. transferChecked source mint destination amount decimals owner programId
                 = Inl (RangeError msg)"
    by (simp add: transferChecked_def)
qed

theorem builders_account_lists_witness:
  "(9::nat) \<le> 255
   \<and> (\<exists>d. initializeMint 1 9 2 None =
         Inr \<lparr>ix_keys = [\<lparr>pubkey = 1, isSigner = False, isWritable = True\<rparr>,
                          \<lparr>pubkey = SYSVAR_RENT_PUBKEY, isSigner = False, isWritable = False\<rparr>],
               ix_programId = TOKEN_PROGRAM_ID, ix_data = d\<rparr>)
   \<and> (\<exists>d. transferChecked 3 1 4 1000 9 5 TOKEN_PROGRAM_ID =
         Inr \<lparr>ix_keys = [\<lparr>pubkey = 3, isSigner = False, isWritable = True\<rparr>,
                          \<lparr>pubkey = 1, isSigner = False, isWritable = False\<rparr>,
                          \<lparr>pubkey = 4, isSigner = False, isWritable = True\<rparr>,
                          \<lparr>pubkey = 5, isSigner = True, isWritable = False\<rparr>],
               ix_programId = TOKEN_PROGRAM_ID, ix_data = d\<rparr>)"
  using builders_account_lists
    [where decimals = 9 and mint = 1 and mintAuthority = 2 and freezeAuthority = None
       and source = 3 and destination = 4 and amount = 1000 and owner = 5
       and programId = TOKEN_PROGRAM_ID]
  by simp

section \<open>Composition of a mint creation\<close>

lemma io_bind_lift_Inr: "io_bind (lift (Inr x)) f = f x"
  by (simp add: io_bind_def lift_def)

lemma io_bind_lift_Inl: "io_bind (lift (Inl e)) f = io_throw e"
  by (simp add: io_bind_def lift_def io_throw_def)

lemma io_bind_return: "io_bind (io_return x) f = f x"
  by (simp add: io_bind_def io_return_def)

lemma io_bind_throw: "io_bind (io_throw e) f = io_throw e"
  by (simp add: io_bind_def io_throw_def)

lemma io_bind_call:
  "io_bind (call ev answer) f t =
     (case answer t of Inl e \<Rightarrow> (Inl e, t @ [ev]) | Inr x \<Rightarrow> f x (t @ [ev]))"
  by (simp add: io_bind_def call_def split: sum.splits)

lemma io_bind_assoc: "io_bind (io_bind m f) g = io_bind m (\<lambda>x. io_bind (f x) g)"
  by (auto simp: io_bind_def fun_eq_iff split: prod.splits sum.splits)

lemmas io_simps = io_bind_assoc io_bind_lift_Inr io_bind_lift_Inl io_bind_return io_bind_throw
  io_bind_call

lemma initializeMint_ok:
  "decimals \<le> 255 \<Longrightarrow> \<exists>ix. initializeMint mint decimals mintAuthority freezeAuthority = Inr ix"
  using encode_initializeMint_ok
    [of decimals mintAuthority "freezeAuthority \<noteq> None"
        "case freezeAuthority of None \<Rightarrow> PublicKey_default | Some k \<Rightarrow> k"]
  by (auto simp: initializeMint_def)

lemma initializeAccount_ok: "\<exists>ix. initializeAccount account mint owner = Inr ix"
  using encode_empty_ok(1) by (auto simp: initializeAccount_def)

lemma mintTo_ok: "\<exists>ix. mintTo mint destination amount mintAuthority = Inr ix"
  using encode_amount_ok(1) [of amount] by (auto simp: mintTo_def)

lemma burn_ok: "\<exists>ix. burn account mint amount owner = Inr ix"
  using encode_amount_ok(2) [of amount] by (auto simp: burn_def)

lemma closeAccount_ok: "\<exists>ix. closeAccount source destination owner = Inr ix"
  using encode_empty_ok(2) by (auto simp: closeAccount_def)

lemma transferChecked_ok:
  "decimals \<le> 255 \<Longrightarrow>
   \<exists>ix. transferChecked source mint destination amount decimals owner programId = Inr ix"
  using encode_transferChecked_ok [of decimals amount] by (auto simp: transferChecked_def)

text \<open>
  Claim C3. When the connection answers the rent queries, create-and-initialize-mint
  hands to the submission: for an amount of 0, exactly the two instructions
  createAccount(mint), initializeMint, with the mint key as the only signer besides the
  wallet; for an amount above 0, exactly the five instructions createAccount(mint),
  initializeMint, createAccount(initialAccount), initializeAccount, mintTo, in this
  order, with the mint key and the initial account key as signers.
\<close>

theorem createAndInitializeMint_composition:
  assumes dec: "decimals \<le> 255"
    and rent: "rpc_getMinimumBalanceForRentExemption connection t MINT_LAYOUT_span = Inr lamports"
  shows "\<exists>initMint initAccount mintTo'.
      initializeMint (publicKey mint) decimals (publicKey owner) None = Inr initMint
    \<and> initializeAccount (publicKey initialAccount) (publicKey mint) (publicKey owner) = Inr initAccount
    \<and> mintTo (publicKey mint) (publicKey initialAccount) amount (publicKey owner) = Inr mintTo'
    \<and> (amount = 0 \<longrightarrow>
         createAndInitializeMint lib MINT_LAYOUT_span ACCOUNT_LAYOUT_span
             connection owner mint amount decimals initialAccount t =
           signAndSendTransaction lib connection
             \<lparr>instructions =
                [SystemProgram_createAccount (publicKey owner) (publicKey mint) lamports
                   MINT_LAYOUT_span TOKEN_PROGRAM_ID,
                 initMint],
              recentBlockhash = None, signatures = []\<rparr>
             owner [mint] False
             (t @ [GetMinimumBalanceForRentExemption MINT_LAYOUT_span]))
    \<and> (0 < amount
         \<and> rpc_getMinimumBalanceForRentExemption connection
             (t @ [GetMinimumBalanceForRentExemption MINT_LAYOUT_span]) ACCOUNT_LAYOUT_span
             = Inr lamports' \<longrightarrow>
         createAndInitializeMint lib MINT_LAYOUT_span ACCOUNT_LAYOUT_span
             connection owner mint amount decimals initialAccount t =
           signAndSendTransaction lib connection
             \<lparr>instructions =
                [SystemProgram_createAccount (publicKey owner) (publicKey mint) lamports
                   MINT_LAYOUT_span TOKEN_PROGRAM_ID,
                 initMint,
                 SystemProgram_createAccount (publicKey owner) (publicKey initialAccount) lamports'
                   ACCOUNT_LAYOUT_span TOKEN_PROGRAM_ID,
                 initAccount,
                 mintTo'],
              recentBlockhash = None, signatures = []\<rparr>
             owner [mint, initialAccount] False
             (t @ [GetMinimumBalanceForRentExemption MINT_LAYOUT_span,
                   GetMinimumBalanceForRentExemption ACCOUNT_LAYOUT_span]))"
proof -
  from initializeMint_ok [OF dec] obtain initMint
    where 1: "initializeMint (publicKey mint) decimals (publicKey owner) None = Inr initMint"
    by blast
  from initializeAccount_ok obtain initAccount
    where 2: "initializeAccount (publicKey initialAccount) (publicKey mint) (publicKey owner)
                = Inr initAccount"
    by blast
  from mintTo_ok obtain mintTo'
    where 3: "mintTo (publicKey mint) (publicKey initialAccount) amount (publicKey owner) = Inr mintTo'"
    by blast
  show ?thesis
    using 1 2 3 rent
    by (simp add: createAndInitializeMint_def io_simps new_Transaction_def)
qed

theorem createAndInitializeMint_composition_witness:
  "(9::nat) \<le> 255
   \<and> rpc_getMinimumBalanceForRentExemption (MockConnection []) [] 82 = Inr 820
   \<and> (0::nat) < 5
   \<and> rpc_getMinimumBalanceForRentExemption (MockConnection [])
         [GetMinimumBalanceForRentExemption 82] 165 = Inr 1650
   \<and> (\<exists>initMint initAccount mintTo'.
        initializeMint 2 9 1 None = Inr initMint
      \<and> initializeAccount 3 2 1 = Inr initAccount
      \<and> mintTo 2 3 5 1 = Inr mintTo'
      \<and> createAndInitializeMint (stub_web3 0) 82 165 (MockConnection [])
           (createMockWallet \<lparr>publicKey = 1\<rparr> [\<lparr>publicKey = 2\<rparr>, \<lparr>publicKey = 3\<rparr>])
           \<lparr>publicKey = 2\<rparr> 5 9 \<lparr>publicKey = 3\<rparr> [] =
         signAndSendTransaction (stub_web3 0) (MockConnection [])
           \<lparr>instructions =
              [SystemProgram_createAccount 1 2 820 82 TOKEN_PROGRAM_ID,
               initMint,
               SystemProgram_createAccount 1 3 1650 165 TOKEN_PROGRAM_ID,
               initAccount,
               mintTo'],
            recentBlockhash = None, signatures = []\<rparr>
           (createMockWallet \<lparr>publicKey = 1\<rparr> [\<lparr>publicKey = 2\<rparr>, \<lparr>publicKey = 3\<rparr>])
           [\<lparr>publicKey = 2\<rparr>, \<lparr>publicKey = 3\<rparr>] False
           [GetMinimumBalanceForRentExemption 82, GetMinimumBalanceForRentExemption 165])"
  using createAndInitializeMint_composition
    [where decimals = 9 and connection = "MockConnection []" and t = "[]"
       and MINT_LAYOUT_span = 82 and ACCOUNT_LAYOUT_span = 165
       and lamports = 820 and lamports' = 1650 and amount = 5
       and mint = "\<lparr>publicKey = 2\<rparr>" and initialAccount = "\<lparr>publicKey = 3\<rparr>"
       and owner = "createMockWallet \<lparr>publicKey = 1\<rparr> [\<lparr>publicKey = 2\<rparr>, \<lparr>publicKey = 3\<rparr>]"
       and lib = "stub_web3 0"]
  by (simp add: MockConnection_def createMockWallet_def)

section \<open>Routing of a transfer\<close>

lemma transferChecked_10_9:
  "transferChecked source mint destination 10 9 owner programId =
     Inr \<lparr>ix_keys = [\<lparr>pubkey = source, isSigner = False, isWritable = True\<rparr>,
                      \<lparr>pubkey = mint, isSigner = False, isWritable = False\<rparr>,
                      \<lparr>pubkey = destination, isSigner = False, isWritable = True\<rparr>,
                      \<lparr>pubkey = owner, isSigner = True, isWritable = False\<rparr>],
           ix_programId = programId,
           ix_data = [12, 10, 0, 0, 0, 0, 0, 0, 0, 9]\<rparr>"
  by (simp add: transferChecked_def encode_transferChecked_10_9)

lemma createTransfer_instructions:
  assumes "transferChecked sourcePublicKey mint destinationPublicKey amount decimals
             ownerPublicKey programId = Inr ix"
  shows "createTransferBetweenSplTokenAccountsInstruction ownerPublicKey mint decimals
           sourcePublicKey destinationPublicKey amount memo programId
         = Inr \<lparr>instructions = ix # (if truthy memo then [memoInstruction (the memo)] else []),
                 recentBlockhash = None, signatures = []\<rparr>"
  using assms
  by (simp add: createTransferBetweenSplTokenAccountsInstruction_def new_Transaction_def)

lemma create_associated_branch:
  assumes dec: "decimals \<le> 255"
    and q1: "rpc_getAccountInfo connection t destinationPublicKey = Inr info"
    and nontoken: "info = None \<or> ai_owner (the info) \<noteq> programId"
    and funded: "(info \<noteq> None \<and> ai_lamports (the info) \<noteq> 0) \<or> overrideDestinationCheck"
    and derive: "findAssociatedTokenAddress lib destinationPublicKey mint (Some programId)
                   = Inr associated"
    and q2: "rpc_getAccountInfo connection (t @ [GetAccountInfo destinationPublicKey]) associated
               = Inr info'"
    and noassoc: "info' = None \<or> ai_owner (the info') \<noteq> programId"
  shows "\<exists>create transfer.
      createAssociatedTokenAccountIx lib (publicKey owner) destinationPublicKey mint programId
        = Inr (create, associated)
    \<and> transferChecked sourcePublicKey mint associated amount decimals (publicKey owner) programId
        = Inr transfer
    \<and> transferTokens lib connection owner sourcePublicKey destinationPublicKey amount memo
        mint decimals overrideDestinationCheck (Some programId) t
      = (Inr \<lparr>instructions =
                 [create, transfer] @ (if truthy memo then [memoInstruction (the memo)] else []),
               recentBlockhash = None, signatures = []\<rparr>,
         t @ [GetAccountInfo destinationPublicKey, GetAccountInfo associated])"
proof -
  from derive obtain create
    where c: "createAssociatedTokenAccountIx lib (publicKey owner) destinationPublicKey mint programId
                = Inr (create, associated)"
    by (simp add: createAssociatedTokenAccountIx_def)
  from transferChecked_ok [OF dec] obtain transfer
    where x: "transferChecked sourcePublicKey mint associated amount decimals (publicKey owner)
                programId = Inr transfer"
    by blast
  have cat: "createAndTransferToAccount lib connection owner sourcePublicKey destinationPublicKey
               amount memo mint decimals programId tr
             = (Inr \<lparr>instructions =
                       [create, transfer] @ (if truthy memo then [memoInstruction (the memo)] else []),
                     recentBlockhash = None, signatures = []\<rparr>, tr)" for tr
    using c createTransfer_instructions [OF x]
    by (simp add: createAndTransferToAccount_def io_bind_lift_Inr io_return_def new_Transaction_def)
  have first: "\<not> (info \<noteq> None \<and> ai_owner (the info) = programId)"
    using nontoken by auto
  have guard: "\<not> ((info = None \<or> ai_lamports (the info) = 0) \<and> \<not> overrideDestinationCheck)"
    using funded by auto
  have second: "\<not> (info' \<noteq> None \<and> ai_owner (the info') = programId)"
    using noassoc by auto
  have "transferTokens lib connection owner sourcePublicKey destinationPublicKey amount memo
        mint decimals overrideDestinationCheck (Some programId) t
      = createAndTransferToAccount lib connection owner sourcePublicKey destinationPublicKey
               amount memo mint decimals programId
          (t @ [GetAccountInfo destinationPublicKey, GetAccountInfo associated])"
    unfolding transferTokens_def Let_def option.case io_bind_call q1 sum.case
      if_not_P [OF first] if_not_P [OF guard] derive io_bind_lift_Inr
    using noassoc by (auto simp: q2)
  with c x cat show ?thesis by simp
qed

lemma transferTokens_default:
  "transferTokens lib connection owner sourcePublicKey destinationPublicKey amount memo
     mint decimals overrideDestinationCheck None
   = transferTokens lib connection owner sourcePublicKey destinationPublicKey amount memo
     mint decimals overrideDestinationCheck (Some TOKEN_PROGRAM_ID)"
  by (simp add: transferTokens_def)

lemma unsigned_createTransfer:
  "unsigned (createTransferBetweenSplTokenAccountsInstruction ownerPublicKey mint decimals
      sourcePublicKey destinationPublicKey amount memo programId)"
  by (simp add: unsigned_def createTransferBetweenSplTokenAccountsInstruction_def
      new_Transaction_def Let_def split: sum.splits)

lemma transferBetweenSplTokenAccounts_pure:
  "\<exists>r. transferBetweenSplTokenAccounts connection owner mint decimals sourcePublicKey
          destinationPublicKey amount memo programId tr = (r, tr) \<and> unsigned r"
  by (simp add: transferBetweenSplTokenAccounts_def lift_def unsigned_createTransfer)

lemma createAndTransferToAccount_pure:
  "\<exists>r. createAndTransferToAccount lib connection owner sourcePublicKey destinationPublicKey
          amount memo mint decimals programId tr = (r, tr) \<and> unsigned r"
proof (cases "createAssociatedTokenAccountIx lib (publicKey owner) destinationPublicKey mint programId")
  case (Inl e)
  then show ?thesis
    by (simp add: createAndTransferToAccount_def io_bind_lift_Inl io_throw_def unsigned_def)
next
  case (Inr ca)
  obtain create newAddress where ca: "ca = (create, newAddress)" by (cases ca)
  show ?thesis
  proof (cases "createTransferBetweenSplTokenAccountsInstruction (publicKey owner) mint
                  decimals sourcePublicKey newAddress amount memo programId")
    case (Inl e)
    with Inr ca show ?thesis
      by (simp add: createAndTransferToAccount_def io_bind_lift_Inr io_bind_lift_Inl
          io_throw_def unsigned_def)
  next
    case transfer: (Inr transfer)
    with Inr ca show ?thesis
      by (simp add: createAndTransferToAccount_def io_bind_lift_Inr io_return_def unsigned_def
          new_Transaction_def)
  qed
qed

lemma transferTokens_direct_example:
  "transferTokens (stub_web3 0)
     (MockConnection [(5, \<lparr>ai_data = [], ai_owner = TOKEN_PROGRAM_ID, ai_lamports = 2039280\<rparr>)])
     (createMockWallet \<lparr>publicKey = 1\<rparr> []) 3 5 10 None 2 9 False None []
   = (Inr \<lparr>instructions =
             [\<lparr>ix_keys = [\<lparr>pubkey = 3, isSigner = False, isWritable = True\<rparr>,
                          \<lparr>pubkey = 2, isSigner = False, isWritable = False\<rparr>,
                          \<lparr>pubkey = 5, isSigner = False, isWritable = True\<rparr>,
                          \<lparr>pubkey = 1, isSigner = True, isWritable = False\<rparr>],
               ix_programId = TOKEN_PROGRAM_ID,
               ix_data = [12, 10, 0, 0, 0, 0, 0, 0, 0, 9]\<rparr>],
           recentBlockhash = None, signatures = []\<rparr>,
      [GetAccountInfo 5])"
  by (simp add: transferTokens_def Let_def io_bind_call MockConnection_def createMockWallet_def
      transferBetweenSplTokenAccounts_def createTransferBetweenSplTokenAccountsInstruction_def
      transferChecked_10_9 truthy_def new_Transaction_def lift_def)

text \<open>
  Claim C4, as stated, fails: a destination that has an account without funding, owned
  by the token program, is a token account for \<open>transferTokens\<close>, which composes the
  transfer whatever the override flag.
\<close>

theorem transferTokens_unfunded_token_account_counterexample:
  "rpc_getAccountInfo
     (MockConnection [(5, \<lparr>ai_data = [], ai_owner = TOKEN_PROGRAM_ID, ai_lamports = 0\<rparr>)]) [] 5
   = Inr (Some \<lparr>ai_data = [], ai_owner = TOKEN_PROGRAM_ID, ai_lamports = 0\<rparr>)
   \<and> transferTokens (stub_web3 0)
     (MockConnection [(5, \<lparr>ai_data = [], ai_owner = TOKEN_PROGRAM_ID, ai_lamports = 0\<rparr>)])
     (createMockWallet \<lparr>publicKey = 1\<rparr> []) 3 5 10 None 2 9 False None []
   = (Inr \<lparr>instructions =
             [\<lparr>ix_keys = [\<lparr>pubkey = 3, isSigner = False, isWritable = True\<rparr>,
                          \<lparr>pubkey = 2, isSigner = False, isWritable = False\<rparr>,
                          \<lparr>pubkey = 5, isSigner = False, isWritable = True\<rparr>,
                          \<lparr>pubkey = 1, isSigner = True, isWritable = False\<rparr>],
               ix_programId = TOKEN_PROGRAM_ID,
               ix_data = [12, 10, 0, 0, 0, 0, 0, 0, 0, 9]\<rparr>],
           recentBlockhash = None, signatures = []\<rparr>,
      [GetAccountInfo 5])"
  by (simp add: transferTokens_def Let_def io_bind_call MockConnection_def createMockWallet_def
      transferBetweenSplTokenAccounts_def createTransferBetweenSplTokenAccountsInstruction_def
      transferChecked_10_9 truthy_def new_Transaction_def lift_def)

text \<open>
  Claim C4, amended. When the destination has no ledger account, or has one without
  funding that the token program does not own, and the override flag is unset,
  \<open>transferTokens\<close> throws \<open>Cannot send to address with zero DOMI balances\<close>
  (DestinationUnfunded) after the one query of the destination: nothing else is called
  and no instruction is built.
\<close>

theorem transferTokens_destination_unfunded:
  assumes q: "rpc_getAccountInfo connection t destinationPublicKey = Inr info"
    and unfunded: "info = None \<or> ai_lamports (the info) = 0"
    and nontoken: "info = None
         \<or> ai_owner (the info) \<noteq> (case programId of None \<Rightarrow> TOKEN_PROGRAM_ID | Some p \<Rightarrow> p)"
    and override: "\<not> overrideDestinationCheck"
  shows "transferTokens lib connection owner sourcePublicKey destinationPublicKey amount memo
           mint decimals overrideDestinationCheck programId t
         = (Inl (Error ''Cannot send to address with zero DOMI balances''),
            t @ [GetAccountInfo destinationPublicKey])"
proof (cases info)
  case None
  with q override show ?thesis
    by (simp add: transferTokens_def Let_def io_bind_call io_throw_def)
next
  case (Some a)
  with unfunded nontoken have "ai_lamports a = 0"
    and "ai_owner a \<noteq> (case programId of None \<Rightarrow> TOKEN_PROGRAM_ID | Some p \<Rightarrow> p)"
    by simp_all
  with q override Some show ?thesis
    by (simp add: transferTokens_def Let_def io_bind_call io_throw_def)
qed

theorem transferTokens_destination_unfunded_witness:
  "rpc_getAccountInfo (MockConnection []) [] 5 = Inr None
   \<and> transferTokens (stub_web3 0) (MockConnection [])
        (createMockWallet \<lparr>publicKey = 1\<rparr> []) 3 5 10 None 2 9 False None []
      = (Inl (Error ''Cannot send to address with zero DOMI balances''), [GetAccountInfo 5])"
  using transferTokens_destination_unfunded
    [where connection = "MockConnection []" and t = "[]" and destinationPublicKey = 5
       and info = None and overrideDestinationCheck = False and programId = None
       and lib = "stub_web3 0" and owner = "createMockWallet \<lparr>publicKey = 1\<rparr> []"
       and sourcePublicKey = 3 and amount = 10 and memo = None and mint = 2 and decimals = 9]
  by (simp add: MockConnection_def)

text \<open>
  Claim C5, as stated, fails: with a memo, the transaction that creates the associated
  account has three instructions, the memo last.
\<close>

theorem transferTokens_memo_counterexample:
  "transferTokens (stub_web3 99)
     (MockConnection [(5, \<lparr>ai_data = [], ai_owner = 0, ai_lamports = 1000\<rparr>)])
     (createMockWallet \<lparr>publicKey = 1\<rparr> []) 3 5 10 (Some ''hi'') 2 9 False (Some 7) []
   = (Inr \<lparr>instructions =
             [\<lparr>ix_keys = [\<lparr>pubkey = 1, isSigner = True, isWritable = True\<rparr>,
                          \<lparr>pubkey = 99, isSigner = False, isWritable = True\<rparr>,
                          \<lparr>pubkey = 5, isSigner = False, isWritable = False\<rparr>,
                          \<lparr>pubkey = 2, isSigner = False, isWritable = False\<rparr>,
                          \<lparr>pubkey = SystemProgram_programId, isSigner = False, isWritable = False\<rparr>,
                          \<lparr>pubkey = 7, isSigner = False, isWritable = False\<rparr>,
                          \<lparr>pubkey = SYSVAR_RENT_PUBKEY, isSigner = False, isWritable = False\<rparr>],
               ix_programId = ASSOCIATED_TOKEN_PROGRAM_ID, ix_data = []\<rparr>,
              \<lparr>ix_keys = [\<lparr>pubkey = 3, isSigner = False, isWritable = True\<rparr>,
                          \<lparr>pubkey = 2, isSigner = False, isWritable = False\<rparr>,
                          \<lparr>pubkey = 99, isSigner = False, isWritable = True\<rparr>,
                          \<lparr>pubkey = 1, isSigner = True, isWritable = False\<rparr>],
               ix_programId = 7,
               ix_data = [12, 10, 0, 0, 0, 0, 0, 0, 0, 9]\<rparr>,
              \<lparr>ix_keys = [], ix_programId = MEMO_PROGRAM_ID, ix_data = [104, 105]\<rparr>],
           recentBlockhash = None, signatures = []\<rparr>,
      [GetAccountInfo 5, GetAccountInfo 99])"
proof -
  have d: "findAssociatedTokenAddress (stub_web3 99) 5 2 (Some 7) = Inr 99"
    by (simp add: findAssociatedTokenAddress_def stub_web3_def)
  have c: "createAssociatedTokenAccountIx (stub_web3 99) 1 5 2 7 =
        Inr (\<lparr>ix_keys = [\<lparr>pubkey = 1, isSigner = True, isWritable = True\<rparr>,
                          \<lparr>pubkey = 99, isSigner = False, isWritable = True\<rparr>,
                          \<lparr>pubkey = 5, isSigner = False, isWritable = False\<rparr>,
                          \<lparr>pubkey = 2, isSigner = False, isWritable = False\<rparr>,
                          \<lparr>pubkey = SystemProgram_programId, isSigner = False, isWritable = False\<rparr>,
                          \<lparr>pubkey = 7, isSigner = False, isWritable = False\<rparr>,
                          \<lparr>pubkey = SYSVAR_RENT_PUBKEY, isSigner = False, isWritable = False\<rparr>],
               ix_programId = ASSOCIATED_TOKEN_PROGRAM_ID, ix_data = []\<rparr>, 99)"
    by (simp add: createAssociatedTokenAccountIx_def d)
  have m: "memoInstruction ''hi'' =
      \<lparr>ix_keys = [], ix_programId = MEMO_PROGRAM_ID, ix_data = [104, 105]\<rparr>"
    by (simp add: memoInstruction_def)
  from create_associated_branch
    [where decimals = 9 and programId = 7
       and connection = "MockConnection [(5, \<lparr>ai_data = [], ai_owner = 0, ai_lamports = 1000\<rparr>)]"
       and t = "[]" and destinationPublicKey = 5
       and info = "Some \<lparr>ai_data = [], ai_owner = 0, ai_lamports = 1000\<rparr>"
       and overrideDestinationCheck = False and lib = "stub_web3 99" and mint = 2
       and associated = 99 and info' = None
       and owner = "createMockWallet \<lparr>publicKey = 1\<rparr> []"
       and sourcePublicKey = 3 and amount = 10 and memo = "Some ''hi''"]
  show ?thesis
    by (simp add: MockConnection_def d createMockWallet_def truthy_def c [simplified]
        transferChecked_10_9 m)
qed

text \<open>
  Claim C5, amended. When the destination is not an account of the token program, is
  funded or the override flag is set, and the derived associated address holds no
  account of the token program, \<open>transferTokens\<close> returns one transaction whose
  instructions are the create-associated-account instruction, then transferChecked to the
  derived address, then the memo instruction if a memo that is not empty was given: two
  instructions without a memo, three with one.
\<close>

theorem transferTokens_create_associated:
  assumes "decimals \<le> 255"
    and "P = (case programId of None \<Rightarrow> TOKEN_PROGRAM_ID | Some p \<Rightarrow> p)"
    and "rpc_getAccountInfo connection t destinationPublicKey = Inr info"
    and "info = None \<or> ai_owner (the info) \<noteq> P"
    and "(info \<noteq> None \<and> ai_lamports (the info) \<noteq> 0) \<or> overrideDestinationCheck"
    and "findAssociatedTokenAddress lib destinationPublicKey mint (Some P) = Inr associated"
    and "rpc_getAccountInfo connection (t @ [GetAccountInfo destinationPublicKey]) associated
           = Inr info'"
    and "info' = None \<or> ai_owner (the info') \<noteq> P"
  shows "\<exists>create transfer.
      createAssociatedTokenAccountIx lib (publicKey owner) destinationPublicKey mint P
        = Inr (create, associated)
    \<and> transferChecked sourcePublicKey mint associated amount decimals (publicKey owner) P
        = Inr transfer
    \<and> transferTokens lib connection owner sourcePublicKey destinationPublicKey amount memo
        mint decimals overrideDestinationCheck programId t
      = (Inr \<lparr>instructions =
                 [create, transfer] @ (if truthy memo then [memoInstruction (the memo)] else []),
               recentBlockhash = None, signatures = []\<rparr>,
         t @ [GetAccountInfo destinationPublicKey, GetAccountInfo associated])"
proof -
  have "transferTokens lib connection owner sourcePublicKey destinationPublicKey amount memo
          mint decimals overrideDestinationCheck programId
        = transferTokens lib connection owner sourcePublicKey destinationPublicKey amount memo
          mint decimals overrideDestinationCheck (Some P)"
    using assms(2) by (cases programId) (simp_all add: transferTokens_default)
  with create_associated_branch [OF assms(1) assms(3-8)]
  show ?thesis by simp
qed

theorem transferTokens_create_associated_witness:
  "(9::nat) \<le> 255
   \<and> rpc_getAccountInfo
       (MockConnection [(5, \<lparr>ai_data = [], ai_owner = 0, ai_lamports = 1000\<rparr>)]) [] 5
     = Inr (Some \<lparr>ai_data = [], ai_owner = 0, ai_lamports = 1000\<rparr>)
   \<and> (0::pubkey) \<noteq> 7
   \<and> findAssociatedTokenAddress (stub_web3 99) 5 2 (Some 7) = Inr 99
   \<and> rpc_getAccountInfo
       (MockConnection [(5, \<lparr>ai_data = [], ai_owner = 0, ai_lamports = 1000\<rparr>)])
       [GetAccountInfo 5] 99
     = Inr None
   \<and> (\<exists>create transfer.
        createAssociatedTokenAccountIx (stub_web3 99) 1 5 2 7 = Inr (create, 99)
      \<and> transferChecked 3 2 99 10 9 1 7 = Inr transfer
      \<and> transferTokens (stub_web3 99)
           (MockConnection [(5, \<lparr>ai_data = [], ai_owner = 0, ai_lamports = 1000\<rparr>)])
           (createMockWallet \<lparr>publicKey = 1\<rparr> []) 3 5 10 None 2 9 False (Some 7) []
         = (Inr \<lparr>instructions = [create, transfer], recentBlockhash = None, signatures = []\<rparr>,
            [GetAccountInfo 5, GetAccountInfo 99]))"
  using transferTokens_create_associated
    [where decimals = 9 and P = 7 and programId = "Some 7"
       and connection = "MockConnection [(5, \<lparr>ai_data = [], ai_owner = 0, ai_lamports = 1000\<rparr>)]"
       and t = "[]" and destinationPublicKey = 5
       and info = "Some \<lparr>ai_data = [], ai_owner = 0, ai_lamports = 1000\<rparr>"
       and overrideDestinationCheck = False and lib = "stub_web3 99" and mint = 2
       and associated = 99 and info' = None
       and owner = "createMockWallet \<lparr>publicKey = 1\<rparr> []"
       and sourcePublicKey = 3 and amount = 10 and memo = None]
  by (simp add: MockConnection_def findAssociatedTokenAddress_def stub_web3_def
      createMockWallet_def truthy_def)

text \<open>
  Claim C7. Whatever the ledger answers, \<open>transferTokens\<close> calls nothing but
  \<open>getAccountInfo\<close>, once for the destination and at most once more for the derived
  associated address: it fetches no blockhash, asks for no signature and submits
  nothing. The transaction it returns, in each of its three branches, is the composed
  one: it has instructions, no recent blockhash and no signature.
\<close>

theorem transferTokens_composes_only:
  "\<exists>r calls.
      transferTokens lib connection owner sourcePublicKey destinationPublicKey amount memo
        mint decimals overrideDestinationCheck programId t = (r, t @ calls)
    \<and> (calls = [GetAccountInfo destinationPublicKey]
       \<or> (\<exists>associated. calls = [GetAccountInfo destinationPublicKey, GetAccountInfo associated]))
    \<and> (\<forall>transaction. r = Inr transaction \<longrightarrow>
          recentBlockhash transaction = None \<and> signatures transaction = []
          \<and> instructions transaction \<noteq> [])"
proof -
  define P where "P = (case programId of None \<Rightarrow> TOKEN_PROGRAM_ID | Some p \<Rightarrow> p)"
  let ?run = "transferTokens lib connection owner sourcePublicKey destinationPublicKey amount
                memo mint decimals overrideDestinationCheck programId t"
  let ?t1 = "t @ [GetAccountInfo destinationPublicKey]"
  have shape: "\<exists>r calls. ?run = (r, t @ calls)
      \<and> (calls = [GetAccountInfo destinationPublicKey]
         \<or> (\<exists>associated. calls = [GetAccountInfo destinationPublicKey, GetAccountInfo associated]))
      \<and> unsigned r"
  proof (cases "rpc_getAccountInfo connection t destinationPublicKey")
    case (Inl e)
    then have "?run = (Inl e, ?t1)"
      by (simp add: transferTokens_def Let_def io_bind_call)
    then show ?thesis by (simp add: unsigned_def)
  next
    case q1: (Inr info)
    show ?thesis
    proof (cases "info \<noteq> None \<and> ai_owner (the info) = P")
      case True
      with q1 have "?run = transferBetweenSplTokenAccounts connection owner mint decimals
                      sourcePublicKey destinationPublicKey amount memo P ?t1"
        by (simp add: transferTokens_def Let_def io_bind_call P_def)
      with transferBetweenSplTokenAccounts_pure
        [of connection owner mint decimals sourcePublicKey destinationPublicKey amount memo P ?t1]
      show ?thesis by auto
    next
      case first: False
      show ?thesis
      proof (cases "(info = None \<or> ai_lamports (the info) = 0) \<and> \<not> overrideDestinationCheck")
        case True
        with q1 first have "?run = (Inl (Error ''Cannot send to address with zero DOMI balances''), ?t1)"
          unfolding transferTokens_def Let_def io_bind_call P_def [symmetric]
          by (auto simp: io_throw_def)
        then show ?thesis by (simp add: unsigned_def)
      next
        case guard: False
        show ?thesis
        proof (cases "findAssociatedTokenAddress lib destinationPublicKey mint (Some P)")
          case (Inl e)
          with q1 first guard have "?run = (Inl e, ?t1)"
            unfolding transferTokens_def Let_def io_bind_call P_def [symmetric]
            by (auto simp: io_bind_lift_Inl io_throw_def)
          then show ?thesis by (simp add: unsigned_def)
        next
          case derive: (Inr associated)
          let ?t2 = "t @ [GetAccountInfo destinationPublicKey, GetAccountInfo associated]"
          show ?thesis
          proof (cases "rpc_getAccountInfo connection ?t1 associated")
            case (Inl e)
            with q1 first guard derive have "?run = (Inl e, ?t2)"
              unfolding transferTokens_def Let_def io_bind_call P_def [symmetric]
              by (auto simp: io_bind_lift_Inr io_bind_call)
            then show ?thesis by (simp add: unsigned_def)
          next
            case q2: (Inr info')
            show ?thesis
            proof (cases "info' \<noteq> None \<and> ai_owner (the info') = P")
              case True
              with q1 first guard derive q2
              have "?run = transferBetweenSplTokenAccounts connection owner mint decimals
                      sourcePublicKey associated amount memo P ?t2"
                unfolding transferTokens_def Let_def io_bind_call P_def [symmetric]
                by (auto simp: io_bind_lift_Inr io_bind_call)
              with transferBetweenSplTokenAccounts_pure
                [of connection owner mint decimals sourcePublicKey associated amount memo P ?t2]
              show ?thesis by auto
            next
              case False
              with q1 first guard derive q2
              have "?run = createAndTransferToAccount lib connection owner sourcePublicKey
                      destinationPublicKey amount memo mint decimals P ?t2"
                unfolding transferTokens_def Let_def io_bind_call P_def [symmetric]
                by (auto simp: io_bind_lift_Inr io_bind_call)
              with createAndTransferToAccount_pure
                [of lib connection owner sourcePublicKey destinationPublicKey amount memo mint
                    decimals P ?t2]
              show ?thesis by auto
            qed
          qed
        qed
      qed
    qed
  qed
  then show ?thesis by (auto simp: unsigned_def)
qed

theorem transferTokens_composes_only_witness:
  "\<exists>transaction.
     transferTokens (stub_web3 0)
       (MockConnection [(5, \<lparr>ai_data = [], ai_owner = TOKEN_PROGRAM_ID, ai_lamports = 2039280\<rparr>)])
       (createMockWallet \<lparr>publicKey = 1\<rparr> []) 3 5 10 None 2 9 False None []
     = (Inr transaction, [GetAccountInfo 5])
   \<and> recentBlockhash transaction = None \<and> signatures transaction = []
   \<and> instructions transaction \<noteq> []"
proof -
  from transferTokens_composes_only
    [of "stub_web3 0"
        "MockConnection [(5, \<lparr>ai_data = [], ai_owner = TOKEN_PROGRAM_ID, ai_lamports = 2039280\<rparr>)]"
        "createMockWallet \<lparr>publicKey = 1\<rparr> []" 3 5 10 None 2 9 False None "[]"]
  obtain r calls
    where run: "transferTokens (stub_web3 0)
       (MockConnection [(5, \<lparr>ai_data = [], ai_owner = TOKEN_PROGRAM_ID, ai_lamports = 2039280\<rparr>)])
       (createMockWallet \<lparr>publicKey = 1\<rparr> []) 3 5 10 None 2 9 False None [] = (r, [] @ calls)"
      and ok: "\<forall>transaction. r = Inr transaction \<longrightarrow>
          recentBlockhash transaction = None \<and> signatures transaction = []
          \<and> instructions transaction \<noteq> []"
    by blast
  from run obtain transaction where r: "r = Inr transaction" and c: "calls = [GetAccountInfo 5]"
    by (auto simp: transferTokens_direct_example)
  from ok r have "recentBlockhash transaction = None \<and> signatures transaction = []
          \<and> instructions transaction \<noteq> []"
    by blast
  with run r c show ?thesis by simp
qed

section \<open>The guards of burn-all\<close>

lemma toBigIntLE_zeros: "toBigIntLE (replicate n 0) = 0"
  by (induction n) simp_all

lemma parse_zero:
  "parseTokenAccountData_spec (replicate 72 0) = Inr \<lparr>ta_mint = 0, ta_owner = 0, ta_amount = 0\<rparr>"
  by (simp add: parseTokenAccountData_spec_def toBigIntLE_zeros)

lemma parse_five:
  "parseTokenAccountData_spec (replicate 64 0 @ [5, 0, 0, 0, 0, 0, 0, 0])
     = Inr \<lparr>ta_mint = 0, ta_owner = 0, ta_amount = 5\<rparr>"
  by (simp add: parseTokenAccountData_spec_def toBigIntLE_zeros)

text \<open>
  Claim C6. \<open>burnAllTokens\<close> queries the token account once. If there is no account
  it throws \<open>Token account not found\<close> (AccountNotFound); if the decoded balance is 0
  it throws \<open>Token account has zero balance\<close> (ZeroBalance); in both cases nothing
  else has been called and no instruction built. Otherwise it is
  \<open>burnTokensAndClose\<close> with the decoded balance as the amount. The decoder of
  \<open>data.js\<close> is a parameter.
\<close>

theorem burnAllTokens_guards:
  "(rpc_getAccountInfo connection t tokenAccount = Inr None \<longrightarrow>
      burnAllTokens lib parseTokenAccountData connection owner tokenAccount mint shouldClose t
      = (Inl (Error ''Token account not found''), t @ [GetAccountInfo tokenAccount]))
   \<and> (rpc_getAccountInfo connection t tokenAccount = Inr (Some info)
       \<and> parseTokenAccountData (ai_data info) = Inr tokenData \<and> ta_amount tokenData = 0 \<longrightarrow>
      burnAllTokens lib parseTokenAccountData connection owner tokenAccount mint shouldClose t
      = (Inl (Error ''Token account has zero balance''), t @ [GetAccountInfo tokenAccount]))
   \<and> (rpc_getAccountInfo connection t tokenAccount = Inr (Some info)
       \<and> parseTokenAccountData (ai_data info) = Inr tokenData \<and> ta_amount tokenData \<noteq> 0 \<longrightarrow>
      burnAllTokens lib parseTokenAccountData connection owner tokenAccount mint shouldClose t
      = burnTokensAndClose lib connection owner tokenAccount mint (ta_amount tokenData) shouldClose
          (t @ [GetAccountInfo tokenAccount]))"
  by (simp add: burnAllTokens_def io_bind_call io_bind_lift_Inr io_throw_def Let_def)

theorem burnAllTokens_guards_witness:
  "rpc_getAccountInfo (MockConnection []) [] 7 = Inr None
   \<and> burnAllTokens (stub_web3 0) parseTokenAccountData_spec (MockConnection [])
        (createMockWallet \<lparr>publicKey = 1\<rparr> []) 7 2 False []
      = (Inl (Error ''Token account not found''), [GetAccountInfo 7])
   \<and> rpc_getAccountInfo
        (MockConnection [(7, \<lparr>ai_data = replicate 72 0, ai_owner = TOKEN_PROGRAM_ID,
                               ai_lamports = 2039280\<rparr>)]) [] 7
      = Inr (Some \<lparr>ai_data = replicate 72 0, ai_owner = TOKEN_PROGRAM_ID, ai_lamports = 2039280\<rparr>)
   \<and> parseTokenAccountData_spec (replicate 72 0)
      = Inr \<lparr>ta_mint = 0, ta_owner = 0, ta_amount = 0\<rparr>
   \<and> burnAllTokens (stub_web3 0) parseTokenAccountData_spec
        (MockConnection [(7, \<lparr>ai_data = replicate 72 0, ai_owner = TOKEN_PROGRAM_ID,
                               ai_lamports = 2039280\<rparr>)])
        (createMockWallet \<lparr>publicKey = 1\<rparr> []) 7 2 False []
      = (Inl (Error ''Token account has zero balance''), [GetAccountInfo 7])
   \<and> parseTokenAccountData_spec (replicate 64 0 @ [5, 0, 0, 0, 0, 0, 0, 0])
      = Inr \<lparr>ta_mint = 0, ta_owner = 0, ta_amount = 5\<rparr>
   \<and> burnAllTokens (stub_web3 0) parseTokenAccountData_spec
        (MockConnection [(7, \<lparr>ai_data = replicate 64 0 @ [5, 0, 0, 0, 0, 0, 0, 0],
                               ai_owner = TOKEN_PROGRAM_ID, ai_lamports = 2039280\<rparr>)])
        (createMockWallet \<lparr>publicKey = 1\<rparr> []) 7 2 True []
      = burnTokensAndClose (stub_web3 0)
        (MockConnection [(7, \<lparr>ai_data = replicate 64 0 @ [5, 0, 0, 0, 0, 0, 0, 0],
                               ai_owner = TOKEN_PROGRAM_ID, ai_lamports = 2039280\<rparr>)])
        (createMockWallet \<lparr>publicKey = 1\<rparr> []) 7 2 5 True [GetAccountInfo 7]"
  using
    burnAllTokens_guards
      [where connection = "MockConnection []" and t = "[]" and tokenAccount = 7
         and lib = "stub_web3 0" and parseTokenAccountData = parseTokenAccountData_spec
         and owner = "createMockWallet \<lparr>publicKey = 1\<rparr> []" and mint = 2
         and shouldClose = False]
    burnAllTokens_guards
      [where connection = "MockConnection [(7, \<lparr>ai_data = replicate 72 0,
                 ai_owner = TOKEN_PROGRAM_ID, ai_lamports = 2039280\<rparr>)]"
         and t = "[]" and tokenAccount = 7
         and info = "\<lparr>ai_data = replicate 72 0, ai_owner = TOKEN_PROGRAM_ID,
                       ai_lamports = 2039280\<rparr>"
         and tokenData = "\<lparr>ta_mint = 0, ta_owner = 0, ta_amount = 0\<rparr>"
         and lib = "stub_web3 0" and parseTokenAccountData = parseTokenAccountData_spec
         and owner = "createMockWallet \<lparr>publicKey = 1\<rparr> []" and mint = 2
         and shouldClose = False]
    burnAllTokens_guards
      [where connection = "MockConnection [(7, \<lparr>ai_data = replicate 64 0 @ [5, 0, 0, 0, 0, 0, 0, 0],
                 ai_owner = TOKEN_PROGRAM_ID, ai_lamports = 2039280\<rparr>)]"
         and t = "[]" and tokenAccount = 7
         and info = "\<lparr>ai_data = replicate 64 0 @ [5, 0, 0, 0, 0, 0, 0, 0],
                       ai_owner = TOKEN_PROGRAM_ID, ai_lamports = 2039280\<rparr>"
         and tokenData = "\<lparr>ta_mint = 0, ta_owner = 0, ta_amount = 5\<rparr>"
         and lib = "stub_web3 0" and parseTokenAccountData = parseTokenAccountData_spec
         and owner = "createMockWallet \<lparr>publicKey = 1\<rparr> []" and mint = 2
         and shouldClose = True]
  by (simp add: MockConnection_def parse_zero parse_five)

section \<open>Confirmation and submission\<close>

lemma confirm_loop_step:
  assumes "i < maxRetries"
  shows "confirm_loop connection signature maxRetries i tr =
     (case rpc_confirmTransaction connection tr signature of
        Inr None \<Rightarrow> (Inr Confirmed, tr @ [ConfirmTransaction signature])
      | Inr (Some err) \<Rightarrow>
          if i = maxRetries - 1
          then (Inl (Error (''Transaction failed: '' @ err)), tr @ [ConfirmTransaction signature])
          else confirm_loop connection signature maxRetries (i + 1)
                 (tr @ [ConfirmTransaction signature])
      | Inl error \<Rightarrow>
          if i = maxRetries - 1 then (Inl error, tr @ [ConfirmTransaction signature])
          else confirm_loop connection signature maxRetries (i + 1)
                 (tr @ [ConfirmTransaction signature]))"
  using assms
  by (subst confirm_loop.simps) (simp add: call_def split: sum.splits option.splits)

lemma confirm_loop_success:
  assumes "N < maxRetries" and "i \<le> N"
    and "\<And>j. i \<le> j \<Longrightarrow> j < N \<Longrightarrow>
           rpc_confirmTransaction connection
             (t @ replicate j (ConfirmTransaction signature)) signature \<noteq> Inr None"
    and "rpc_confirmTransaction connection
           (t @ replicate N (ConfirmTransaction signature)) signature = Inr None"
  shows "confirm_loop connection signature maxRetries i
           (t @ replicate i (ConfirmTransaction signature))
         = (Inr Confirmed, t @ replicate (Suc N) (ConfirmTransaction signature))"
  using assms(2,3)
proof (induction "N - i" arbitrary: i)
  case 0
  then have "i = N" by simp
  with assms(1,4) show ?case
    by (simp add: confirm_loop_step replicate_append_same)
next
  case (Suc d)
  then have lt: "i < N" by simp
  with assms(1) have im: "i < maxRetries" and last: "i \<noteq> maxRetries - 1" by simp_all
  from Suc.prems(2) [of i] lt
  have pend: "rpc_confirmTransaction connection
           (t @ replicate i (ConfirmTransaction signature)) signature \<noteq> Inr None"
    by simp
  have next_tr: "(t @ replicate i (ConfirmTransaction signature)) @ [ConfirmTransaction signature]
      = t @ replicate (Suc i) (ConfirmTransaction signature)"
    by (simp add: replicate_append_same)
  have "confirm_loop connection signature maxRetries i
           (t @ replicate i (ConfirmTransaction signature))
        = confirm_loop connection signature maxRetries (Suc i)
           (t @ replicate (Suc i) (ConfirmTransaction signature))"
    using pend last next_tr
    by (subst confirm_loop_step [OF im]) (simp split: sum.splits option.splits)
  also have "\<dots> = (Inr Confirmed, t @ replicate (Suc N) (ConfirmTransaction signature))"
  proof (rule Suc.hyps(1))
    show "d = N - Suc i" using Suc.hyps(2) by simp
    show "Suc i \<le> N" using lt by simp
    show "\<And>j. Suc i \<le> j \<Longrightarrow> j < N \<Longrightarrow>
           rpc_confirmTransaction connection
             (t @ replicate j (ConfirmTransaction signature)) signature \<noteq> Inr None"
      using Suc.prems(2) by simp
  qed
  finally show ?case .
qed

text \<open>What the last round throws, from what its poll gave.\<close>

lemma confirm_loop_exhausted:
  assumes "i < maxRetries"
    and "\<And>j. i \<le> j \<Longrightarrow> j < maxRetries \<Longrightarrow>
           rpc_confirmTransaction connection
             (t @ replicate j (ConfirmTransaction signature)) signature \<noteq> Inr None"
  shows "confirm_loop connection signature maxRetries i
           (t @ replicate i (ConfirmTransaction signature))
         = (Inl (case rpc_confirmTransaction connection
                        (t @ replicate (maxRetries - 1) (ConfirmTransaction signature)) signature of
                   Inl error \<Rightarrow> error
                 | Inr err \<Rightarrow> Error (''Transaction failed: '' @ the err)),
            t @ replicate maxRetries (ConfirmTransaction signature))"
  using assms
proof (induction "maxRetries - i" arbitrary: i)
  case 0
  then show ?case by simp
next
  case (Suc d)
  from Suc.prems(2) [of i] Suc.prems(1)
  have pend: "rpc_confirmTransaction connection
           (t @ replicate i (ConfirmTransaction signature)) signature \<noteq> Inr None"
    by simp
  have next_tr: "(t @ replicate i (ConfirmTransaction signature)) @ [ConfirmTransaction signature]
      = t @ replicate (Suc i) (ConfirmTransaction signature)"
    by (simp add: replicate_append_same)
  show ?case
  proof (cases "i = maxRetries - 1")
    case True
    with Suc.prems(1) have m: "maxRetries = Suc i" by simp
    have "confirm_loop connection signature (Suc i) i
            (t @ replicate i (ConfirmTransaction signature))
          = (Inl (case rpc_confirmTransaction connection
                        (t @ replicate i (ConfirmTransaction signature)) signature of
                   Inl error \<Rightarrow> error
                 | Inr err \<Rightarrow> Error (''Transaction failed: '' @ the err)),
            t @ replicate (Suc i) (ConfirmTransaction signature))"
      using pend next_tr
      by (subst confirm_loop_step) (auto split: sum.splits option.splits)
    then show ?thesis unfolding m by simp
  next
    case False
    with Suc.prems(1) have lt: "Suc i < maxRetries" by simp
    have "confirm_loop connection signature maxRetries i
           (t @ replicate i (ConfirmTransaction signature))
        = confirm_loop connection signature maxRetries (Suc i)
           (t @ replicate (Suc i) (ConfirmTransaction signature))"
      using pend False next_tr
      by (subst confirm_loop_step [OF Suc.prems(1)]) (simp split: sum.splits option.splits)
    also have "\<dots> = (Inl (case rpc_confirmTransaction connection
                        (t @ replicate (maxRetries - 1) (ConfirmTransaction signature)) signature of
                   Inl error \<Rightarrow> error
                 | Inr err \<Rightarrow> Error (''Transaction failed: '' @ the err)),
            t @ replicate maxRetries (ConfirmTransaction signature))"
    proof (rule Suc.hyps(1))
      show "d = maxRetries - Suc i" using Suc.hyps(2) by simp
      show "Suc i < maxRetries" by (rule lt)
      show "\<And>j. Suc i \<le> j \<Longrightarrow> j < maxRetries \<Longrightarrow>
           rpc_confirmTransaction connection
             (t @ replicate j (ConfirmTransaction signature)) signature \<noteq> Inr None"
        using Suc.prems(2) by simp
    qed
    finally show ?thesis .
  qed
qed

lemma confirm_loop_trace:
  "\<exists>k. k \<le> maxRetries - i \<and>
     snd (confirm_loop connection signature maxRetries i tr)
       = tr @ replicate k (ConfirmTransaction signature)"
proof (induction "maxRetries - i" arbitrary: i tr)
  case 0
  then have "\<not> i < maxRetries" by simp
  then have "confirm_loop connection signature maxRetries i tr = (Inr Undefined, tr)"
    by (subst confirm_loop.simps) (simp add: io_return_def)
  then show ?case by simp
next
  case (Suc d)
  then have im: "i < maxRetries" by simp
  from Suc.hyps(2) have d: "d = maxRetries - (i + 1)" by simp
  from Suc.hyps(1) [OF d, of "tr @ [ConfirmTransaction signature]"]
  obtain k where k: "k \<le> maxRetries - (i + 1)"
    and tr: "snd (confirm_loop connection signature maxRetries (i + 1)
                    (tr @ [ConfirmTransaction signature]))
             = (tr @ [ConfirmTransaction signature]) @ replicate k (ConfirmTransaction signature)"
    by blast
  have one: "tr @ [ConfirmTransaction signature] = tr @ replicate 1 (ConfirmTransaction signature)"
    by simp
  have more: "(tr @ [ConfirmTransaction signature]) @ replicate k (ConfirmTransaction signature)
      = tr @ replicate (Suc k) (ConfirmTransaction signature)"
    by simp
  have "snd (confirm_loop connection signature maxRetries i tr)
          = tr @ replicate 1 (ConfirmTransaction signature)
      \<or> snd (confirm_loop connection signature maxRetries i tr)
          = tr @ replicate (Suc k) (ConfirmTransaction signature)"
    using tr
    by (subst (1 2) confirm_loop_step [OF im]) (auto split: sum.splits option.splits)
  moreover have "1 \<le> maxRetries - i" "Suc k \<le> maxRetries - i" using im k by simp_all
  ultimately show ?case by blast
qed

lemma signAndSendTransaction_submits_once:
  "\<exists>calls. snd (signAndSendTransaction lib connection transaction wallet signers skipPreflight t)
             = t @ calls
     \<and> length (filter is_submission calls) \<le> 1"
proof -
  let ?t1 = "t @ [GetRecentBlockhash]"
  show ?thesis
  proof (cases "rpc_getRecentBlockhash connection t")
    case (Inl e)
    then have "snd (signAndSendTransaction lib connection transaction wallet signers skipPreflight t)
        = t @ [GetRecentBlockhash]"
      by (simp add: signAndSendTransaction_def io_bind_call)
    then show ?thesis by simp
  next
    case b: (Inr blockhash)
    show ?thesis
    proof (cases "setSigners (transaction\<lparr>recentBlockhash := Some blockhash\<rparr>)
                    (publicKey wallet # map publicKey signers)")
      case (Inl e)
      with b have "snd (signAndSendTransaction lib connection transaction wallet signers skipPreflight t)
        = t @ [GetRecentBlockhash]"
        by (simp add: signAndSendTransaction_def io_bind_call io_bind_lift_Inl io_throw_def)
      then show ?thesis by simp
    next
      case s: (Inr tx1)
      show ?thesis
      proof (cases "if 0 < length signers then partialSign tx1 (map publicKey signers) else Inr tx1")
        case (Inl e)
        with b s have "snd (signAndSendTransaction lib connection transaction wallet signers skipPreflight t)
          = t @ [GetRecentBlockhash]"
          by (simp add: signAndSendTransaction_def io_bind_call io_bind_lift_Inr io_bind_lift_Inl
              io_throw_def)
        then show ?thesis by simp
      next
        case p: (Inr tx2)
        show ?thesis
        proof (cases "signTransaction wallet tx2")
          case (Inl e)
          with b s p have "snd (signAndSendTransaction lib connection transaction wallet signers
                skipPreflight t) = t @ [GetRecentBlockhash, SignTransaction tx2]"
            by (simp add: signAndSendTransaction_def io_bind_call io_bind_lift_Inr)
          then show ?thesis by simp
        next
          case w: (Inr tx3)
          show ?thesis
          proof (cases "serialize lib tx3")
            case (Inl e)
            with b s p w have "snd (signAndSendTransaction lib connection transaction wallet signers
                skipPreflight t) = t @ [GetRecentBlockhash, SignTransaction tx2]"
              by (simp add: signAndSendTransaction_def io_bind_call io_bind_lift_Inr
                  io_bind_lift_Inl io_throw_def)
            then show ?thesis by simp
          next
            case (Inr rawTransaction)
            with b s p w have "snd (signAndSendTransaction lib connection transaction wallet signers
                skipPreflight t)
              = t @ [GetRecentBlockhash, SignTransaction tx2,
                     SendRawTransaction rawTransaction skipPreflight]"
              by (simp add: signAndSendTransaction_def io_bind_call io_bind_lift_Inr) (simp_all add: call_def)
            then show ?thesis by simp
          qed
        qed
      qed
    qed
  qed
qed

text \<open>
  What the poll does, for every retry count and every connection. Pending polls
  followed by a success give success; polls that all throw give what the last one
  threw; a rejection reported by the last poll gives \<open>Transaction failed\<close>; the
  operation only polls, at most the retry count of times, and
  \<open>signAndSendTransaction\<close> submits at most once, so that nothing is submitted again.
\<close>

lemma confirmTransaction_outcomes:
  "(N < maxRetries
      \<and> (\<forall>j<N. \<exists>e. rpc_confirmTransaction connection
                        (t @ replicate j (ConfirmTransaction signature)) signature = Inl e)
      \<and> rpc_confirmTransaction connection
           (t @ replicate N (ConfirmTransaction signature)) signature = Inr None
      \<longrightarrow> confirmTransaction connection signature maxRetries t
          = (Inr Confirmed, t @ replicate (Suc N) (ConfirmTransaction signature)))
   \<and> (0 < maxRetries
      \<and> (\<forall>j<maxRetries. \<exists>e. rpc_confirmTransaction connection
                        (t @ replicate j (ConfirmTransaction signature)) signature = Inl e)
      \<longrightarrow> (\<exists>e. rpc_confirmTransaction connection
                  (t @ replicate (maxRetries - 1) (ConfirmTransaction signature)) signature = Inl e
              \<and> confirmTransaction connection signature maxRetries t
                = (Inl e, t @ replicate maxRetries (ConfirmTransaction signature))))
   \<and> (0 < maxRetries
      \<and> (\<forall>j<maxRetries - 1. rpc_confirmTransaction connection
                        (t @ replicate j (ConfirmTransaction signature)) signature \<noteq> Inr None)
      \<and> rpc_confirmTransaction connection
           (t @ replicate (maxRetries - 1) (ConfirmTransaction signature)) signature
         = Inr (Some err)
      \<longrightarrow> confirmTransaction connection signature maxRetries t
          = (Inl (Error (''Transaction failed: '' @ err)),
             t @ replicate maxRetries (ConfirmTransaction signature)))
   \<and> (\<exists>k\<le>maxRetries.
        snd (confirmTransaction connection signature maxRetries t)
          = t @ replicate k (ConfirmTransaction signature))
   \<and> (\<exists>calls.
        snd (signAndSendTransaction lib connection transaction wallet signers skipPreflight t)
          = t @ calls
        \<and> length (filter is_submission calls) \<le> 1)"
proof (intro conjI impI)
  assume h: "N < maxRetries
      \<and> (\<forall>j<N. \<exists>e. rpc_confirmTransaction connection
                        (t @ replicate j (ConfirmTransaction signature)) signature = Inl e)
      \<and> rpc_confirmTransaction connection
           (t @ replicate N (ConfirmTransaction signature)) signature = Inr None"
  have "confirm_loop connection signature maxRetries 0
           (t @ replicate 0 (ConfirmTransaction signature))
         = (Inr Confirmed, t @ replicate (Suc N) (ConfirmTransaction signature))"
  proof (rule confirm_loop_success)
    show "N < maxRetries" using h by simp
    show "0 \<le> N" by simp
    show "rpc_confirmTransaction connection
           (t @ replicate N (ConfirmTransaction signature)) signature = Inr None"
      using h by simp
    show "rpc_confirmTransaction connection
             (t @ replicate j (ConfirmTransaction signature)) signature \<noteq> Inr None"
      if "j < N" for j
      using h that by auto
  qed
  then show "confirmTransaction connection signature maxRetries t
          = (Inr Confirmed, t @ replicate (Suc N) (ConfirmTransaction signature))"
    by (simp add: confirmTransaction_def)
next
  assume h: "0 < maxRetries
      \<and> (\<forall>j<maxRetries. \<exists>e. rpc_confirmTransaction connection
                        (t @ replicate j (ConfirmTransaction signature)) signature = Inl e)"
  then obtain e where e: "rpc_confirmTransaction connection
           (t @ replicate (maxRetries - 1) (ConfirmTransaction signature)) signature = Inl e"
    by (metis diff_less zero_less_one)
  have "confirm_loop connection signature maxRetries 0
           (t @ replicate 0 (ConfirmTransaction signature))
         = (Inl (case rpc_confirmTransaction connection
                        (t @ replicate (maxRetries - 1) (ConfirmTransaction signature)) signature of
                   Inl error \<Rightarrow> error
                 | Inr err \<Rightarrow> Error (''Transaction failed: '' @ the err)),
            t @ replicate maxRetries (ConfirmTransaction signature))"
  proof (rule confirm_loop_exhausted)
    show "0 < maxRetries" using h by simp
    show "rpc_confirmTransaction connection
             (t @ replicate j (ConfirmTransaction signature)) signature \<noteq> Inr None"
      if "j < maxRetries" for j
      using h that by auto
  qed
  with e show "\<exists>e. rpc_confirmTransaction connection
                  (t @ replicate (maxRetries - 1) (ConfirmTransaction signature)) signature = Inl e
              \<and> confirmTransaction connection signature maxRetries t
                = (Inl e, t @ replicate maxRetries (ConfirmTransaction signature))"
    by (simp add: confirmTransaction_def)
next
  assume h: "0 < maxRetries
      \<and> (\<forall>j<maxRetries - 1. rpc_confirmTransaction connection
                        (t @ replicate j (ConfirmTransaction signature)) signature \<noteq> Inr None)
      \<and> rpc_confirmTransaction connection
           (t @ replicate (maxRetries - 1) (ConfirmTransaction signature)) signature
         = Inr (Some err)"
  have "confirm_loop connection signature maxRetries 0
           (t @ replicate 0 (ConfirmTransaction signature))
         = (Inl (case rpc_confirmTransaction connection
                        (t @ replicate (maxRetries - 1) (ConfirmTransaction signature)) signature of
                   Inl error \<Rightarrow> error
                 | Inr err \<Rightarrow> Error (''Transaction failed: '' @ the err)),
            t @ replicate maxRetries (ConfirmTransaction signature))"
  proof (rule confirm_loop_exhausted)
    show "0 < maxRetries" using h by simp
    show "rpc_confirmTransaction connection
             (t @ replicate j (ConfirmTransaction signature)) signature \<noteq> Inr None"
      if "j < maxRetries" for j
    proof (cases "j = maxRetries - 1")
      case True
      with h show ?thesis by simp
    next
      case False
      with that have "j < maxRetries - 1" by simp
      with h show ?thesis by simp
    qed
  qed
  with h show "confirmTransaction connection signature maxRetries t
          = (Inl (Error (''Transaction failed: '' @ err)),
             t @ replicate maxRetries (ConfirmTransaction signature))"
    by (simp add: confirmTransaction_def)
next
  from confirm_loop_trace [of maxRetries 0 connection signature t]
  show "\<exists>k\<le>maxRetries.
        snd (confirmTransaction connection signature maxRetries t)
          = t @ replicate k (ConfirmTransaction signature)"
    by (simp add: confirmTransaction_def)
next
  show "\<exists>calls.
        snd (signAndSendTransaction lib connection transaction wallet signers skipPreflight t)
          = t @ calls
        \<and> length (filter is_submission calls) \<le> 1"
    by (rule signAndSendTransaction_submits_once)
qed

text \<open>
  Claim C9. The claim holds of the poll as far as pending polls go, and nothing is ever
  submitted again; but a rejection by the ledger is not told apart from a timeout. The
  body throws \<open>Transaction failed\<close> for a rejection inside its own \<open>try\<close>
  (\<open>production_test.js\<close>, lines 55 to 57), so the \<open>catch\<close> (lines 59 to 61) takes
  it for one more failed attempt and polls again. A transaction that the ledger rejects at
  the first poll, the polls timing out afterwards, ends after 30 polls with the timeout
  error, exactly as a transaction for which all 30 polls timed out; and a rejection
  followed by a poll that succeeds ends as a success.
\<close>

theorem confirmTransaction_rejection_retried:
  "rpc_confirmTransaction (scripted_connection [Inr (Some ''InstructionError'')]) [] ''sig''
     = Inr (Some ''InstructionError'')
   \<and> confirmTransaction (scripted_connection [Inr (Some ''InstructionError'')]) ''sig'' 30 []
     = (Inl (Error ''Transaction was not confirmed in 30.00 seconds''),
        replicate 30 (ConfirmTransaction ''sig''))
   \<and> confirmTransaction (scripted_connection []) ''sig'' 30 []
     = (Inl (Error ''Transaction was not confirmed in 30.00 seconds''),
        replicate 30 (ConfirmTransaction ''sig''))
   \<and> confirmTransaction (scripted_connection [Inr (Some ''InstructionError''), Inr None])
       ''sig'' 30 []
     = (Inr Confirmed, [ConfirmTransaction ''sig'', ConfirmTransaction ''sig''])"
proof (intro conjI)
  show "rpc_confirmTransaction (scripted_connection [Inr (Some ''InstructionError'')]) [] ''sig''
     = Inr (Some ''InstructionError'')"
    by (simp add: scripted_connection_def)
next
  have "confirm_loop (scripted_connection [Inr (Some ''InstructionError'')]) ''sig'' 30 0
          ([] @ replicate 0 (ConfirmTransaction ''sig''))
        = (Inl (case rpc_confirmTransaction (scripted_connection [Inr (Some ''InstructionError'')])
                       ([] @ replicate (30 - 1) (ConfirmTransaction ''sig'')) ''sig'' of
                  Inl error \<Rightarrow> error
                | Inr err \<Rightarrow> Error (''Transaction failed: '' @ the err)),
           [] @ replicate 30 (ConfirmTransaction ''sig''))"
  proof (rule confirm_loop_exhausted)
    show "(0::nat) < 30" by simp
    show "rpc_confirmTransaction (scripted_connection [Inr (Some ''InstructionError'')])
            ([] @ replicate j (ConfirmTransaction ''sig'')) ''sig'' \<noteq> Inr None" for j
      by (simp add: scripted_connection_def)
  qed
  then show "confirmTransaction (scripted_connection [Inr (Some ''InstructionError'')]) ''sig'' 30 []
     = (Inl (Error ''Transaction was not confirmed in 30.00 seconds''),
        replicate 30 (ConfirmTransaction ''sig''))"
    by (simp add: confirmTransaction_def scripted_connection_def)
next
  have "confirm_loop (scripted_connection []) ''sig'' 30 0
          ([] @ replicate 0 (ConfirmTransaction ''sig''))
        = (Inl (case rpc_confirmTransaction (scripted_connection [])
                       ([] @ replicate (30 - 1) (ConfirmTransaction ''sig'')) ''sig'' of
                  Inl error \<Rightarrow> error
                | Inr err \<Rightarrow> Error (''Transaction failed: '' @ the err)),
           [] @ replicate 30 (ConfirmTransaction ''sig''))"
  proof (rule confirm_loop_exhausted)
    show "(0::nat) < 30" by simp
    show "rpc_confirmTransaction (scripted_connection [])
            ([] @ replicate j (ConfirmTransaction ''sig'')) ''sig'' \<noteq> Inr None" for j
      by (simp add: scripted_connection_def)
  qed
  then show "confirmTransaction (scripted_connection []) ''sig'' 30 []
     = (Inl (Error ''Transaction was not confirmed in 30.00 seconds''),
        replicate 30 (ConfirmTransaction ''sig''))"
    by (simp add: confirmTransaction_def scripted_connection_def)
next
  have "confirm_loop (scripted_connection [Inr (Some ''InstructionError''), Inr None]) ''sig'' 30 0
          ([] @ replicate 0 (ConfirmTransaction ''sig''))
        = (Inr Confirmed, [] @ replicate (Suc 1) (ConfirmTransaction ''sig''))"
  proof (rule confirm_loop_success)
    show "(1::nat) < 30" by simp
    show "(0::nat) \<le> 1" by simp
    show "rpc_confirmTransaction (scripted_connection [Inr (Some ''InstructionError''), Inr None])
            ([] @ replicate j (ConfirmTransaction ''sig'')) ''sig'' \<noteq> Inr None"
      if "j < 1" for j
      using that by (simp add: scripted_connection_def)
    show "rpc_confirmTransaction (scripted_connection [Inr (Some ''InstructionError''), Inr None])
            ([] @ replicate 1 (ConfirmTransaction ''sig'')) ''sig'' = Inr None"
      by (simp add: scripted_connection_def)
  qed
  then show "confirmTransaction (scripted_connection [Inr (Some ''InstructionError''), Inr None])
       ''sig'' 30 []
     = (Inr Confirmed, [ConfirmTransaction ''sig'', ConfirmTransaction ''sig''])"
    by (simp add: confirmTransaction_def)
qed

section \<open>Minting to a new account fails\<close>

text \<open>
  Claim C10. \<open>mintMoreTokensWithNewAccount\<close> fails for every input with the
  ReferenceError \<open>Keypair is not defined\<close>: its first statement evaluates \<open>Keypair\<close>,
  which \<open>mint.js\<close> neither imports nor declares. It fails before any call to the
  connection, the trace being as it was, and before any instruction is composed.
\<close>

theorem mintMoreTokensWithNewAccount_fails:
  "mintMoreTokensWithNewAccount lib ACCOUNT_LAYOUT_span generated
     connection mintAuthority mint destinationOwner amount t
   = (Inl (ReferenceError ''Keypair is not defined''), t)"
  by (simp add: mintMoreTokensWithNewAccount_def resolve_def mint_js_scope_def
      io_bind_lift_Inl io_throw_def)

end
